theory Spec2Isabelle
  imports Complex_Main
begin

section \<open>JavaScript values\<close>

text \<open>
  The tool is JavaScript: its input, the request object and every service reply are
  dynamically typed. Values are embedded as a datatype. Numbers are the finite doubles
  seen as rationals (NaN and the infinities are left out); every number the tool itself
  computes (the poll delays 1500, 2250, 3375, 5062.5, 7000) is exact in a double, so the
  rational arithmetic below is the arithmetic of the program. Objects are association
  lists of their own properties; function-valued properties do not occur.
\<close>

datatype jsval =
    JUndefined
  | JNull
  | JBool bool
  | JNum rat
  | JStr string
  | JArr "jsval list"
  | JObj "(string \<times> jsval) list"

text \<open>Truthiness, as \<^verbatim>\<open>!x\<close>, \<^verbatim>\<open>x || y\<close> and \<^verbatim>\<open>if (x)\<close> test it.\<close>

fun truthy :: "jsval \<Rightarrow> bool" where
  "truthy JUndefined = False"
| "truthy JNull = False"
| "truthy (JBool b) = b"
| "truthy (JNum n) = (n \<noteq> 0)"
| "truthy (JStr s) = (s \<noteq> [])"
| "truthy (JArr xs) = True"
| "truthy (JObj kvs) = True"

fun typeof :: "jsval \<Rightarrow> string" where
  "typeof JUndefined = ''undefined''"
| "typeof JNull = ''object''"
| "typeof (JBool b) = ''boolean''"
| "typeof (JNum n) = ''number''"
| "typeof (JStr s) = ''string''"
| "typeof (JArr xs) = ''object''"
| "typeof (JObj kvs) = ''object''"

text \<open>\<^verbatim>\<open>x == null\<close> holds of \<^verbatim>\<open>null\<close> and \<^verbatim>\<open>undefined\<close> only.\<close>

fun nullish :: "jsval \<Rightarrow> bool" where
  "nullish JUndefined = True"
| "nullish JNull = True"
| "nullish v = False"

text \<open>
  \<^verbatim>\<open>v.k\<close> for a value that is not nullish and a name \<open>k\<close> that no prototype
  defines (every name the tool reads is of this kind): the own property of an object,
  \<^verbatim>\<open>undefined\<close> otherwise.
\<close>

fun get_prop :: "jsval \<Rightarrow> string \<Rightarrow> jsval" where
  "get_prop (JObj kvs) k = (case map_of kvs k of None \<Rightarrow> JUndefined | Some v \<Rightarrow> v)"
| "get_prop v k = JUndefined"

text \<open>\<^verbatim>\<open>v?.k\<close>\<close>

definition opt_prop :: "jsval \<Rightarrow> string \<Rightarrow> jsval" where
  "opt_prop v k = (if nullish v then JUndefined else get_prop v k)"

text \<open>\<^verbatim>\<open>a || b\<close> and \<^verbatim>\<open>a ?? b\<close>\<close>

definition js_or :: "jsval \<Rightarrow> jsval \<Rightarrow> jsval" where
  "js_or a b = (if truthy a then a else b)"

definition js_coalesce :: "jsval \<Rightarrow> jsval \<Rightarrow> jsval" where
  "js_coalesce a b = (if nullish a then b else a)"

section \<open>Errors, events and the world outside the tool\<close>

text \<open>
  Every \<^verbatim>\<open>throw\<close> of the source is a value:
  \<^item> \<open>MissingCredentials\<close>: 'Missing ABBYY credentials (ABBYY_APP_ID/ABBYY_APP_PWD).'
  \<^item> \<open>NoInput\<close>: 'No input provided. Pass one of: ...'
  \<^item> \<open>NoPdfBytes\<close>: 'No PDF bytes. Provide ...' (\<^verbatim>\<open>resolvePdfBytes\<close>)
  \<^item> \<open>Malformed\<close>: 'Malformed ABBYY response' (\<^verbatim>\<open>parseTask\<close>)
  \<^item> \<open>ProcessingFailed\<close>: 'ABBYY processing failed'
  \<^item> \<open>Timeout\<close>: 'ABBYY timeout'
  \<^item> \<open>TypeError\<close>: the runtime's error for a property read on \<^verbatim>\<open>null\<close> or
    \<^verbatim>\<open>undefined\<close> and for a call of something that is not a function
  \<^item> \<open>Thrown msg\<close>: an exception raised by a collaborator (HTTP client, file system,
    registry, storage strategy).
\<close>

datatype error =
    MissingCredentials
  | NoInput
  | NoPdfBytes
  | Malformed
  | ProcessingFailed
  | Timeout
  | TypeError
  | Thrown string

type_synonym bytes = string

text \<open>
  The query the tool sends to the host's file registry: the owner, the name hint of the
  older revision (\<^verbatim>\<open>$or: [{filename}, {filepath: /hint/i}]\<close>) and the later revision's
  \<^verbatim>\<open>filepath: {$exists: true, $ne: null}\<close>. The mime type
  \<^verbatim>\<open>/^application\/pdf$/\<close> and the order \<^verbatim>\<open>{updatedAt: -1}\<close> are the same in every query.
\<close>

record file_filter =
  flt_user :: jsval
  flt_name :: "string option"
  flt_has_path :: bool

text \<open>An uploaded file record of the host (read-only to the tool).\<close>

record file_doc =
  doc_id :: string
  doc_user :: jsval
  doc_type :: string
  doc_filepath :: jsval
  doc_filename :: jsval
  doc_updatedAt :: int

text \<open>What the tool does to the outside, in order.\<close>

datatype event =
    FindFileById jsval
  | GetFiles file_filter
  | GetFileURL string
  | HttpGet jsval
  | ReadFile jsval
  | Submit bytes jsval
  | Sleep rat
  | StatusQuery jsval
  | Download jsval

text \<open>
  The world of one invocation: the process configuration, the runtime's built-ins the
  tool calls and the scripted behaviour of its collaborators. \<open>Inl\<close> is a thrown
  exception. \<open>JSON_parse\<close> is \<^verbatim>\<open>JSON.parse\<close> (\<open>None\<close>: SyntaxError);
  \<open>ToNumber\<close> and \<open>ToString\<close> are the runtime's conversions of values that
  are not numbers (\<open>None\<close>: NaN) and not strings; \<open>URL_pathname\<close> is
  \<^verbatim>\<open>new URL(x).pathname\<close> (\<open>None\<close>: the constructor throws).
  A service reply is given as the object the tool reads: for the older revision the result of
  \<^verbatim>\<open>XMLParser.parse\<close> on the reply's body, for the later one the JSON body.
  \<open>status_reply k\<close> answers the \<open>k\<close>-th status query of the invocation and
  \<open>takes i ev\<close> is the time in milliseconds that the action \<open>ev\<close> takes when it
  is the \<open>i\<close>-th action of the invocation.
\<close>

record env =
  APP_ID :: "string option"
  APP_PWD :: "string option"
  JSON_parse :: "string \<Rightarrow> jsval option"
  ToNumber :: "jsval \<Rightarrow> rat option"
  ToString :: "jsval \<Rightarrow> string"
  URL_pathname :: "jsval \<Rightarrow> string option"
  findFileById :: "jsval \<Rightarrow> error + file_doc option"
  getFiles :: "file_filter \<Rightarrow> error + file_doc list"
  req_config :: bool
  getFileURL :: "error + (string \<Rightarrow> error + jsval) option"
  Buffer_from_base64 :: "jsval \<Rightarrow> error + bytes"
  axios_get :: "jsval \<Rightarrow> error + bytes"
  fs_readFile :: "jsval \<Rightarrow> error + bytes"
  submit_reply :: "error + jsval"
  status_reply :: "nat \<Rightarrow> error + jsval"
  takes :: "nat \<Rightarrow> event \<Rightarrow> nat"

text \<open>
  The state of one invocation: the actions so far, the number of status queries answered
  and the wall clock (\<^verbatim>\<open>Date.now()\<close>, in milliseconds).
\<close>

record pstate =
  log :: "event list"
  polls :: nat
  clock :: int

definition initial :: "int \<Rightarrow> pstate" where
  "initial t0 = \<lparr>log = [], polls = 0, clock = t0\<rparr>"

definition emit :: "env \<Rightarrow> event \<Rightarrow> pstate \<Rightarrow> pstate" where
  "emit w ev s = s\<lparr>log := log s @ [ev], clock := clock s + int (takes w (length (log s)) ev)\<rparr>"

text \<open>A configuration value counts when it is set and not the empty string.\<close>

definition configured :: "string option \<Rightarrow> bool" where
  "configured v = (case v of None \<Rightarrow> False | Some s \<Rightarrow> s \<noteq> [])"

section \<open>The request\<close>

text \<open>
  Normalisation of the input (the first lines of \<^verbatim>\<open>_call\<close>, the same in both revisions):
  a string is parsed as JSON, and wrapped as a file name when it does not parse; anything
  that is then \<^verbatim>\<open>null\<close>, \<^verbatim>\<open>undefined\<close> or not of type object becomes
  the empty object.
\<close>

definition normalize_payload :: "env \<Rightarrow> jsval \<Rightarrow> jsval" where
  "normalize_payload w input =
     (let payload =
        (case input of
           JStr s \<Rightarrow> (case JSON_parse w s of Some v \<Rightarrow> v | None \<Rightarrow> JObj [(''filename'', input)])
         | _ \<Rightarrow> input)
      in if nullish payload \<or> typeof payload \<noteq> ''object'' then JObj [] else payload)"

text \<open>
  After normalisation the tool reads and writes seven properties of the request object and
  nothing else of it; the record is the object seen through them.
\<close>

record payload =
  base64 :: jsval
  fileUrl :: jsval
  filePath :: jsval
  file_id :: jsval
  filename :: jsval
  language :: jsval
  timeoutMs :: jsval

definition fields_of :: "jsval \<Rightarrow> payload" where
  "fields_of v =
     \<lparr>base64 = get_prop v ''base64'', fileUrl = get_prop v ''fileUrl'', filePath = get_prop v ''filePath'',
      file_id = get_prop v ''file_id'', filename = get_prop v ''filename'',
      language = get_prop v ''language'', timeoutMs = get_prop v ''timeoutMs''\<rparr>"

section \<open>Helpers shared by both revisions\<close>

text \<open>\<^verbatim>\<open>s.endsWith(suffix)\<close> and \<^verbatim>\<open>s.indexOf(m)\<close> (\<open>None\<close> for -1) on strings.\<close>

definition endsWith :: "string \<Rightarrow> string \<Rightarrow> bool" where
  "endsWith s suffix =
     (length suffix \<le> length s \<and> drop (length s - length suffix) s = suffix)"

fun indexOf :: "string \<Rightarrow> string \<Rightarrow> nat option" where
  "indexOf [] m = (if m = [] then Some 0 else None)"
| "indexOf (c # cs) m =
     (if take (length m) (c # cs) = m then Some 0 else map_option Suc (indexOf cs m))"

text \<open>A value inside a template literal.\<close>

definition js_string :: "env \<Rightarrow> jsval \<Rightarrow> string" where
  "js_string w v = (case v of JStr s \<Rightarrow> s | _ \<Rightarrow> ToString w v)"

text \<open>
  \<^verbatim>\<open>n > v\<close> for a number \<open>n\<close>: \<open>v\<close> is converted to a number and the comparison
  is false when the conversion gives NaN.
\<close>

definition to_number :: "env \<Rightarrow> jsval \<Rightarrow> rat option" where
  "to_number w v =
     (case v of
        JNum n \<Rightarrow> Some n
      | JBool b \<Rightarrow> Some (if b then 1 else 0)
      | JNull \<Rightarrow> Some 0
      | JUndefined \<Rightarrow> None
      | _ \<Rightarrow> ToNumber w v)"

definition js_gt :: "env \<Rightarrow> rat \<Rightarrow> jsval \<Rightarrow> bool" where
  "js_gt w n v = (case to_number w v of None \<Rightarrow> False | Some m \<Rightarrow> n > m)"

text \<open>
  \<^verbatim>\<open>payload.filename && payload.filename.endsWith('.docx') ? payload.filename : 'converted.docx'\<close>.
  A truthy value that is not a string has no \<^verbatim>\<open>endsWith\<close>: the call throws.
\<close>

definition output_filename :: "jsval \<Rightarrow> error + string" where
  "output_filename name =
     (if truthy name then
        (case name of
           JStr s \<Rightarrow> Inr (if endsWith s ''.docx'' then s else ''converted.docx'')
         | _ \<Rightarrow> Inl TypeError)
      else Inr ''converted.docx'')"

text \<open>\<^verbatim>\<open>delay = Math.min(delay * 1.5, 7000)\<close>\<close>

definition next_delay :: "rat \<Rightarrow> rat" where
  "next_delay delay = min (delay * (3 / 2)) 7000"

text \<open>\<^verbatim>\<open>await new Promise((r) => setTimeout(r, delay))\<close>\<close>

definition sleep :: "env \<Rightarrow> rat \<Rightarrow> pstate \<Rightarrow> pstate" where
  "sleep w delay s = emit w (Sleep delay) s"

text \<open>
  \<^verbatim>\<open>getStatus\<close>: one GET of the status endpoint (the two revisions differ in the path
  only). \<^verbatim>\<open>downloadResult\<close>: one GET of the result.
\<close>

definition getStatus :: "env \<Rightarrow> jsval \<Rightarrow> pstate \<Rightarrow> pstate \<times> (error + jsval)" where
  "getStatus w taskId s =
     ((emit w (StatusQuery taskId) s)\<lparr>polls := Suc (polls s)\<rparr>, status_reply w (polls s))"

definition downloadResult :: "env \<Rightarrow> jsval \<Rightarrow> pstate \<Rightarrow> pstate \<times> (error + bytes)" where
  "downloadResult w resultUrl s = (emit w (Download resultUrl) s, axios_get w resultUrl)"

section \<open>The older revision (src/api/app/clients/tools/structured/AbbyyPdfToDocx.js)\<close>

definition resolvePdfBytes_v1 :: "env \<Rightarrow> payload \<Rightarrow> pstate \<Rightarrow> pstate \<times> (error + bytes)" where
  "resolvePdfBytes_v1 w p s =
     (if truthy (base64 p) then (s, Buffer_from_base64 w (base64 p))
      else if truthy (fileUrl p) then (emit w (HttpGet (fileUrl p)) s, axios_get w (fileUrl p))
      else if truthy (filePath p) then (emit w (ReadFile (filePath p)) s, fs_readFile w (filePath p))
      else (s, Inl NoPdfBytes))"

text \<open>\<^verbatim>\<open>startProcess\<close>: one POST of the document; the language defaults to eng.\<close>

definition startProcess_v1 :: "env \<Rightarrow> bytes \<Rightarrow> jsval \<Rightarrow> pstate \<Rightarrow> pstate \<times> (error + jsval)" where
  "startProcess_v1 w buffer lang s =
     (emit w (Submit buffer (if lang = JUndefined then JStr ''eng'' else lang)) s, submit_reply w)"

text \<open>
  \<^verbatim>\<open>parseTask\<close>; its argument is what \<^verbatim>\<open>parser.parse(xmlStr)\<close> gave.
\<close>

definition parseTask_v1 :: "jsval \<Rightarrow> error + jsval" where
  "parseTask_v1 obj =
     (let task = opt_prop (opt_prop obj ''response'') ''task''
      in if \<not> truthy task \<or> \<not> truthy (get_prop task ''Id'') then Inl Malformed else Inr task)"

text \<open>The \<^verbatim>\<open>file_id\<close> lookup; an exception of the registry is swallowed.\<close>

definition resolve_file_id :: "env \<Rightarrow> payload \<Rightarrow> pstate \<Rightarrow> pstate \<times> payload" where
  "resolve_file_id w p s =
     (if truthy (file_id p) \<and> \<not> truthy (fileUrl p) \<and> \<not> truthy (filePath p) \<and> \<not> truthy (base64 p)
      then
        (let s1 = emit w (FindFileById (file_id p)) s in
         case findFileById w (file_id p) of
           Inl e \<Rightarrow> (s1, p)
         | Inr None \<Rightarrow> (s1, p)
         | Inr (Some file) \<Rightarrow>
             if truthy (doc_filepath file)
             then (s1, p\<lparr>fileUrl := doc_filepath file,
                         filename := (if \<not> truthy (filename p) then doc_filename file else filename p)\<rparr>)
             else (s1, p))
      else (s, p))"

text \<open>
  The latest PDF of the user. The name hint is escaped with \<^verbatim>\<open>nameHint.replace\<close>
  before the \<^verbatim>\<open>try\<close>: a truthy hint that is not a string throws.
\<close>

definition name_hint :: "jsval \<Rightarrow> error + string option" where
  "name_hint nameHint =
     (if truthy nameHint then (case nameHint of JStr h \<Rightarrow> Inr (Some h) | _ \<Rightarrow> Inl TypeError)
      else Inr None)"

definition resolve_latest_v1 :: "env \<Rightarrow> jsval \<Rightarrow> payload \<Rightarrow> pstate \<Rightarrow> pstate \<times> (error + payload)" where
  "resolve_latest_v1 w userId p s =
     (let hasSource = truthy (base64 p) \<or> truthy (fileUrl p) \<or> truthy (filePath p) in
      if \<not> hasSource \<and> truthy userId then
        (case name_hint (filename p) of
           Inl e \<Rightarrow> (s, Inl e)
         | Inr hint \<Rightarrow>
            (let flt = \<lparr>flt_user = userId, flt_name = hint, flt_has_path = False\<rparr>;
                 s1 = emit w (GetFiles flt) s in
             case getFiles w flt of
               Inl e \<Rightarrow> (s1, Inr p)
             | Inr [] \<Rightarrow> (s1, Inr p)
             | Inr (latest # rest) \<Rightarrow>
                 if truthy (doc_filepath latest)
                 then (s1, Inr (p\<lparr>fileUrl := doc_filepath latest,
                         filename := (if \<not> truthy (filename p) then doc_filename latest else filename p)\<rparr>))
                 else (s1, Inr p)))
      else (s, Inr p))"

text \<open>The JSON that \<^verbatim>\<open>_call\<close> returns, before \<^verbatim>\<open>JSON.stringify\<close>.\<close>

record result_v1 =
  out_filename :: string
  out_mime :: string
  out_docx :: bytes

text \<open>
  The poll loop. It may run forever: not returning is \<open>None\<close>.
\<close>

partial_function (option) poll_v1 ::
  "env \<Rightarrow> int \<Rightarrow> jsval \<Rightarrow> rat \<Rightarrow> jsval \<Rightarrow> pstate \<Rightarrow> (pstate \<times> (error + jsval)) option" where
  "poll_v1 w start tmo delay task s =
     (if get_prop task ''Status'' = JStr ''Completed'' \<and> truthy (get_prop task ''resultUrl'')
      then Some (s, Inr task)
      else if get_prop task ''Status'' = JStr ''ProcessingFailed'' then Some (s, Inl ProcessingFailed)
      else if js_gt w (of_int (clock s - start)) tmo then Some (s, Inl Timeout)
      else
        (case getStatus w (get_prop task ''Id'') (sleep w delay s) of
           (s1, Inl e) \<Rightarrow> Some (s1, Inl e)
         | (s1, Inr statusXml) \<Rightarrow>
             (case parseTask_v1 statusXml of
                Inl e \<Rightarrow> Some (s1, Inl e)
              | Inr task' \<Rightarrow> poll_v1 w start tmo (next_delay delay) task' s1)))"

declare poll_v1.simps [code]

text \<open>Lines 154 to 166: the start time, the time budget, the first delay and the loop.\<close>

definition poll_section_v1 ::
  "env \<Rightarrow> payload \<Rightarrow> jsval \<Rightarrow> pstate \<Rightarrow> (pstate \<times> (error + jsval)) option" where
  "poll_section_v1 w p task s =
     poll_v1 w (clock s) (js_or (timeoutMs p) (JNum (6 * 60 * 1000))) 1500 task s"

definition call_v1 :: "env \<Rightarrow> jsval \<Rightarrow> jsval \<Rightarrow> pstate \<Rightarrow> (pstate \<times> (error + result_v1)) option" where
  "call_v1 w userId input s0 =
     (if \<not> configured (APP_ID w) \<or> \<not> configured (APP_PWD w) then Some (s0, Inl MissingCredentials)
      else
        (let (s1, p1) = resolve_file_id w (fields_of (normalize_payload w input)) s0 in
         case resolve_latest_v1 w userId p1 s1 of
           (s2, Inl e) \<Rightarrow> Some (s2, Inl e)
         | (s2, Inr p) \<Rightarrow>
            if \<not> truthy (base64 p) \<and> \<not> truthy (fileUrl p) \<and> \<not> truthy (filePath p)
            then Some (s2, Inl NoInput)
            else
              (case resolvePdfBytes_v1 w p s2 of
                 (s3, Inl e) \<Rightarrow> Some (s3, Inl e)
               | (s3, Inr pdfBuf) \<Rightarrow>
                  (case output_filename (filename p) of
                     Inl e \<Rightarrow> Some (s3, Inl e)
                   | Inr name \<Rightarrow>
                      (case startProcess_v1 w pdfBuf (js_or (language p) (JStr ''eng'')) s3 of
                         (s4, Inl e) \<Rightarrow> Some (s4, Inl e)
                       | (s4, Inr startXml) \<Rightarrow>
                          (case parseTask_v1 startXml of
                             Inl e \<Rightarrow> Some (s4, Inl e)
                           | Inr task0 \<Rightarrow>
                              (case poll_section_v1 w p task0 s4 of
                                 None \<Rightarrow> None
                               | Some (s5, Inl e) \<Rightarrow> Some (s5, Inl e)
                               | Some (s5, Inr task) \<Rightarrow>
                                  (case downloadResult w (get_prop task ''resultUrl'') s5 of
                                     (s6, Inl e) \<Rightarrow> Some (s6, Inl e)
                                   | (s6, Inr docxBuf) \<Rightarrow>
                                       Some (s6, Inr \<lparr>out_filename = name,
                                         out_mime = ''application/vnd.openxmlformats-officedocument.wordprocessingml.document'',
                                         out_docx = docxBuf\<rparr>)))))))))"

section \<open>The later revision (src/unnamed/part_000)\<close>

definition resolvePdfBytes_v2 :: "env \<Rightarrow> payload \<Rightarrow> pstate \<Rightarrow> pstate \<times> (error + bytes)" where
  "resolvePdfBytes_v2 w p s =
     (if truthy (base64 p) then (s, Buffer_from_base64 w (base64 p))
      else if truthy (fileUrl p) then (emit w (HttpGet (fileUrl p)) s, axios_get w (fileUrl p))
      else (s, Inl NoPdfBytes))"

text \<open>
  \<^verbatim>\<open>getFreshSignedURL\<close>: every exception inside it is caught and gives \<^verbatim>\<open>null\<close>.
  \<open>getFileURL w\<close> stands for \<^verbatim>\<open>getStrategyFunctions(getFileStrategy(...)).getFileURL\<close>:
  \<open>Inl\<close> when one of the two calls throws, \<open>Inr None\<close> when the result is not a function.
\<close>

definition getFreshSignedURL ::
  "env \<Rightarrow> jsval \<Rightarrow> jsval \<Rightarrow> jsval \<Rightarrow> pstate \<Rightarrow> pstate \<times> jsval" where
  "getFreshSignedURL w originalFilepath userId name s =
     (if \<not> req_config w then (s, JNull)
      else
        (case getFileURL w of
           Inl e \<Rightarrow> (s, JNull)
         | Inr None \<Rightarrow> (s, JNull)
         | Inr (Some getURL) \<Rightarrow>
            (let marker = ''/uploads/'' @ js_string w userId @ ''/'';
                 key1 =
                   (if truthy originalFilepath then
                      (case URL_pathname w originalFilepath of
                         None \<Rightarrow> None
                       | Some pathname \<Rightarrow>
                          (case indexOf pathname marker of
                             None \<Rightarrow> None
                           | Some idx \<Rightarrow> Some (drop (idx + length marker) pathname)))
                    else None);
                 objectKey =
                   (if (key1 = None \<or> key1 = Some []) \<and> truthy userId \<and> truthy name
                    then Some (js_string w userId @ ''/'' @ js_string w name)
                    else key1)
             in case objectKey of
                  None \<Rightarrow> (s, JNull)
                | Some k \<Rightarrow>
                    if k = [] then (s, JNull)
                    else
                      (case getURL k of
                         Inl e \<Rightarrow> (emit w (GetFileURL k) s, JNull)
                       | Inr freshUrl \<Rightarrow> (emit w (GetFileURL k) s, js_coalesce freshUrl JNull)))))"

text \<open>The language is overwritten inside \<^verbatim>\<open>startProcess\<close>, whatever the caller passes.\<close>

definition startProcess_v2 :: "env \<Rightarrow> bytes \<Rightarrow> jsval \<Rightarrow> pstate \<Rightarrow> pstate \<times> (error + jsval)" where
  "startProcess_v2 w buffer lang s =
     (emit w (Submit buffer (JStr ''English,Vietnamese'')) s, submit_reply w)"

definition parseTask_v2 :: "jsval \<Rightarrow> error + jsval" where
  "parseTask_v2 json =
     (let task = json
      in if \<not> truthy task \<or> \<not> truthy (get_prop task ''taskId'') then Inl Malformed else Inr task)"

definition resolve_latest_v2 :: "env \<Rightarrow> jsval \<Rightarrow> payload \<Rightarrow> pstate \<Rightarrow> pstate \<times> payload" where
  "resolve_latest_v2 w userId p s =
     (if \<not> truthy (base64 p) \<and> \<not> truthy (fileUrl p) \<and> truthy userId then
        (let flt = \<lparr>flt_user = userId, flt_name = None, flt_has_path = True\<rparr>;
             s1 = emit w (GetFiles flt) s in
         case getFiles w flt of
           Inl e \<Rightarrow> (s1, p)
         | Inr [] \<Rightarrow> (s1, p)
         | Inr (latest # rest) \<Rightarrow>
             if truthy (doc_filepath latest) then
               (let (s2, freshUrl) =
                      getFreshSignedURL w (doc_filepath latest) userId (doc_filename latest) s1
                in (s2, p\<lparr>fileUrl := js_coalesce freshUrl (doc_filepath latest),
                          filename := (if \<not> truthy (filename p) then doc_filename latest else filename p)\<rparr>))
             else (s1, p))
      else (s, p))"

text \<open>\<^verbatim>\<open>x[0]\<close> for a value that is not nullish.\<close>

fun index0 :: "jsval \<Rightarrow> jsval" where
  "index0 (JArr xs) = (case xs of [] \<Rightarrow> JUndefined | x # rest \<Rightarrow> x)"
| "index0 (JStr s) = (case s of [] \<Rightarrow> JUndefined | c # rest \<Rightarrow> JStr [c])"
| "index0 (JObj kvs) = get_prop (JObj kvs) ''0''"
| "index0 v = JUndefined"

text \<open>
  \<^verbatim>\<open>task.status === 'Completed' && task.resultUrls[0]\<close>. The status replies are not
  validated in this revision, so \<open>task\<close> may be \<^verbatim>\<open>null\<close> and
  \<^verbatim>\<open>resultUrls\<close> may be missing: both reads throw.
\<close>

definition completed_v2 :: "jsval \<Rightarrow> error + bool" where
  "completed_v2 task =
     (if nullish task then Inl TypeError
      else if get_prop task ''status'' \<noteq> JStr ''Completed'' then Inr False
      else if nullish (get_prop task ''resultUrls'') then Inl TypeError
      else Inr (truthy (index0 (get_prop task ''resultUrls''))))"

record result_v2 =
  link_filename :: string
  link_fileUrl :: jsval

partial_function (option) poll_v2 ::
  "env \<Rightarrow> int \<Rightarrow> int \<Rightarrow> rat \<Rightarrow> jsval \<Rightarrow> pstate \<Rightarrow> (pstate \<times> (error + jsval)) option" where
  "poll_v2 w start tmo delay task s =
     (case completed_v2 task of
        Inl e \<Rightarrow> Some (s, Inl e)
      | Inr finished \<Rightarrow>
          if finished then Some (s, Inr task)
          else if get_prop task ''status'' = JStr ''ProcessingFailed'' then Some (s, Inl ProcessingFailed)
          else if clock s - start > tmo then Some (s, Inl Timeout)
          else
            (case getStatus w (get_prop task ''taskId'') (sleep w delay s) of
               (s1, Inl e) \<Rightarrow> Some (s1, Inl e)
             | (s1, Inr task') \<Rightarrow> poll_v2 w start tmo (next_delay delay) task' s1))"

declare poll_v2.simps [code]

text \<open>Lines 183 to 195: the time budget is the constant, the request is not consulted.\<close>

definition poll_section_v2 :: "env \<Rightarrow> jsval \<Rightarrow> pstate \<Rightarrow> (pstate \<times> (error + jsval)) option" where
  "poll_section_v2 w task s = poll_v2 w (clock s) (60 * 60 * 1000) 1500 task s"

definition call_v2 :: "env \<Rightarrow> jsval \<Rightarrow> jsval \<Rightarrow> pstate \<Rightarrow> (pstate \<times> (error + result_v2)) option" where
  "call_v2 w userId input s0 =
     (if \<not> configured (APP_ID w) \<or> \<not> configured (APP_PWD w) then Some (s0, Inl MissingCredentials)
      else
        (let (s1, p) = resolve_latest_v2 w userId (fields_of (normalize_payload w input)) s0 in
         if \<not> truthy (base64 p) \<and> \<not> truthy (fileUrl p) then Some (s1, Inl NoInput)
         else
           (case resolvePdfBytes_v2 w p s1 of
              (s2, Inl e) \<Rightarrow> Some (s2, Inl e)
            | (s2, Inr pdfBuf) \<Rightarrow>
               (case output_filename (filename p) of
                  Inl e \<Rightarrow> Some (s2, Inl e)
                | Inr name \<Rightarrow>
                   (case startProcess_v2 w pdfBuf (js_or (language p) (JStr ''English,Vietnamese'')) s2 of
                      (s3, Inl e) \<Rightarrow> Some (s3, Inl e)
                    | (s3, Inr startJSON) \<Rightarrow>
                       (case parseTask_v2 startJSON of
                          Inl e \<Rightarrow> Some (s3, Inl e)
                        | Inr task0 \<Rightarrow>
                           (case poll_section_v2 w task0 s3 of
                              None \<Rightarrow> None
                            | Some (s4, Inl e) \<Rightarrow> Some (s4, Inl e)
                            | Some (s4, Inr task) \<Rightarrow>
                                Some (s4, Inr \<lparr>link_filename = name,
                                  link_fileUrl = index0 (get_prop task ''resultUrls'')\<rparr>))))))))"

section \<open>The host's file registry\<close>




section \<open>Observations on runs\<close>

text \<open>The delays slept and the status queries made, read off a log.\<close>

fun delays :: "event list \<Rightarrow> rat list" where
  "delays [] = []"
| "delays (Sleep d # evs) = d # delays evs"
| "delays (ev # evs) = delays evs"

fun queries :: "event list \<Rightarrow> jsval list" where
  "queries [] = []"
| "queries (StatusQuery i # evs) = i # queries evs"
| "queries (ev # evs) = queries evs"

text \<open>The first \<open>n\<close> delays of a loop entered with the delay \<open>d\<close>.\<close>

fun backoff :: "nat \<Rightarrow> rat \<Rightarrow> rat list" where
  "backoff 0 d = []"
| "backoff (Suc n) d = d # backoff n (next_delay d)"

text \<open>
  A stretch of the loop from \<open>s\<close> to \<open>s'\<close> with \<open>n\<close> rounds: \<open>n\<close> status
  replies consumed, \<open>n\<close> sleeps with the delays of the backoff, \<open>n\<close> queries.
\<close>

definition run_ok :: "pstate \<Rightarrow> rat \<Rightarrow> pstate \<Rightarrow> nat \<Rightarrow> bool" where
  "run_ok s d s' n =
     (polls s' = polls s + n \<and>
      delays (log s') = delays (log s) @ backoff n d \<and>
      length (queries (log s')) = length (queries (log s)) + n)"

text \<open>
  The exit test of each loop, and the task the loop saw last after \<open>n\<close> rounds: the one it
  was entered with, or the one of the last status reply.
\<close>

definition completed_v1 :: "jsval \<Rightarrow> bool" where
  "completed_v1 task =
     (get_prop task ''Status'' = JStr ''Completed'' \<and> truthy (get_prop task ''resultUrl''))"

definition last_seen_v1 :: "env \<Rightarrow> jsval \<Rightarrow> pstate \<Rightarrow> nat \<Rightarrow> jsval \<Rightarrow> bool" where
  "last_seen_v1 w task s n t =
     (if n = 0 then t = task
      else \<exists>raw. status_reply w (polls s + n - 1) = Inr raw \<and> parseTask_v1 raw = Inr t)"

definition finished_v2 :: "jsval \<Rightarrow> bool" where
  "finished_v2 task =
     (get_prop task ''status'' = JStr ''Completed'' \<and> \<not> nullish (get_prop task ''resultUrls'') \<and>
      truthy (index0 (get_prop task ''resultUrls'')))"

definition last_seen_v2 :: "env \<Rightarrow> jsval \<Rightarrow> pstate \<Rightarrow> nat \<Rightarrow> jsval \<Rightarrow> bool" where
  "last_seen_v2 w task s n t =
     (if n = 0 then t = task else status_reply w (polls s + n - 1) = Inr t)"

text \<open>
  A task on which the loop goes on, a service that never reports a terminal status (every
  reply is well formed and pending), and a runtime whose sleeps last at least as long as
  asked for.
\<close>

definition pending_v1 :: "jsval \<Rightarrow> bool" where
  "pending_v1 task =
     (\<not> (get_prop task ''Status'' = JStr ''Completed'' \<and> truthy (get_prop task ''resultUrl'')) \<and>
      get_prop task ''Status'' \<noteq> JStr ''ProcessingFailed'')"

definition pending_v2 :: "jsval \<Rightarrow> bool" where
  "pending_v2 task =
     (completed_v2 task = Inr False \<and> get_prop task ''status'' \<noteq> JStr ''ProcessingFailed'')"

definition never_terminal_v1 :: "env \<Rightarrow> bool" where
  "never_terminal_v1 w =
     (\<forall>k. \<exists>raw task. status_reply w k = Inr raw \<and> parseTask_v1 raw = Inr task \<and> pending_v1 task)"

definition never_terminal_v2 :: "env \<Rightarrow> bool" where
  "never_terminal_v2 w = (\<forall>k. \<exists>task. status_reply w k = Inr task \<and> pending_v2 task)"

definition sleeps_last :: "env \<Rightarrow> bool" where
  "sleeps_last w = (\<forall>i d. d \<le> of_nat (takes w i (Sleep d)))"

text \<open>
  The clock at the head of the last round of a loop that ended in \<open>s'\<close>. A round is a sleep
  followed by a status query, the last two events of the log; the clock read at the head of
  that round is the final clock less what these two events took.
\<close>

definition head_before :: "env \<Rightarrow> pstate \<Rightarrow> int" where
  "head_before w s' =
     (if length (log s') < 2 then clock s'
      else clock s'
           - int (takes w (length (log s') - 2) (log s' ! (length (log s') - 2)))
           - int (takes w (length (log s') - 1) (log s' ! (length (log s') - 1))))"




section \<open>Example worlds\<close>

text \<open>
  Concrete worlds for the examples below. The service accepts the job, answers the first two
  status queries with Submitted and the third with Completed and a result; a sleep lasts as
  long as asked for and every other action 200 ms. \<open>JSON_parse\<close> is given on the
  strings the examples use (it agrees with \<^verbatim>\<open>JSON.parse\<close> there).
\<close>

definition task_v1 :: "string \<Rightarrow> jsval" where
  "task_v1 status = JObj [(''Id'', JStr ''t1''), (''Status'', JStr status)]"

definition done_v1 :: jsval where
  "done_v1 = JObj [(''Id'', JStr ''t1''), (''Status'', JStr ''Completed''),
                   (''resultUrl'', JStr ''https://ocr.example/result.docx'')]"

definition reply_v1 :: "jsval \<Rightarrow> jsval" where
  "reply_v1 task = JObj [(''response'', JObj [(''task'', task)])]"

text \<open>The JSON text \<^verbatim>\<open>{"language":"eng"}\<close> (the character 0x22 is the double quote).\<close>

definition json_request :: string where
  "json_request =
     ''{'' @ [CHR 0x22] @ ''language'' @ [CHR 0x22] @ '':'' @ [CHR 0x22] @ ''eng'' @ [CHR 0x22] @ ''}''"

definition world_v1 :: env where
  "world_v1 =
     \<lparr>APP_ID = Some ''app'', APP_PWD = Some ''secret'',
      JSON_parse = (\<lambda>s. if s = json_request then Some (JObj [(''language'', JStr ''eng'')])
                         else if s = ''{}'' then Some (JObj []) else if s = ''null'' then Some JNull
                         else if s = ''42'' then Some (JNum 42) else None),
      ToNumber = (\<lambda>v. None), ToString = (\<lambda>v. ''[object Object]''),
      URL_pathname = (\<lambda>v. None),
      findFileById = (\<lambda>v. Inr None), getFiles = (\<lambda>f. Inr []), req_config = False,
      getFileURL = Inr None, Buffer_from_base64 = (\<lambda>v. Inr ''%PDF''),
      axios_get = (\<lambda>u. Inr ''PK''), fs_readFile = (\<lambda>u. Inr ''%PDF''),
      submit_reply = Inr (reply_v1 (task_v1 ''Submitted'')),
      status_reply = (\<lambda>k. if k < 2 then Inr (reply_v1 (task_v1 ''Submitted''))
                           else if k = 2 then Inr (reply_v1 done_v1)
                           else Inl (Thrown ''no further reply'')),
      takes = (\<lambda>i ev. case ev of Sleep d \<Rightarrow> nat \<lceil>d\<rceil> | _ \<Rightarrow> 200)\<rparr>"

definition task_v2 :: "string \<Rightarrow> jsval" where
  "task_v2 status = JObj [(''taskId'', JStr ''t1''), (''status'', JStr status)]"

definition done_v2 :: jsval where
  "done_v2 = JObj [(''taskId'', JStr ''t1''), (''status'', JStr ''Completed''),
                   (''resultUrls'', JArr [JStr ''https://ocr.example/result.docx''])]"

definition world_v2 :: env where
  "world_v2 =
     world_v1\<lparr>submit_reply := Inr (task_v2 ''Submitted''),
              status_reply := (\<lambda>k. if k < 2 then Inr (task_v2 ''Submitted'')
                                   else if k = 2 then Inr done_v2
                                   else Inl (Thrown ''no further reply''))\<rparr>"

text \<open>
  A registry with four uploads, and the worlds whose \<^verbatim>\<open>getFiles\<close> answers from it.
  The latest PDF of user u1 is named scan.docx.
\<close>

definition uploads :: "file_doc list" where
  "uploads =
     [\<lparr>doc_id = ''f1'', doc_user = JStr ''u1'', doc_type = ''application/pdf'',
       doc_filepath = JStr ''https://files.example/uploads/u1/invoice.pdf'',
       doc_filename = JStr ''invoice.pdf'', doc_updatedAt = 100\<rparr>,
      \<lparr>doc_id = ''f2'', doc_user = JStr ''u1'', doc_type = ''application/pdf'',
       doc_filepath = JStr ''https://files.example/uploads/u1/scan.docx'',
       doc_filename = JStr ''scan.docx'', doc_updatedAt = 300\<rparr>,
      \<lparr>doc_id = ''f3'', doc_user = JStr ''u2'', doc_type = ''application/pdf'',
       doc_filepath = JStr ''https://files.example/uploads/u2/other.pdf'',
       doc_filename = JStr ''other.pdf'', doc_updatedAt = 400\<rparr>,
      \<lparr>doc_id = ''f4'', doc_user = JStr ''u1'', doc_type = ''image/png'',
       doc_filepath = JStr ''https://files.example/uploads/u1/photo.png'',
       doc_filename = JStr ''photo.png'', doc_updatedAt = 500\<rparr>]"



text \<open>A service that stays in progress for ever.\<close>

definition world_busy_v1 :: env where
  "world_busy_v1 = world_v1\<lparr>status_reply := (\<lambda>k. Inr (reply_v1 (task_v1 ''InProgress'')))\<rparr>"

definition world_busy_v2 :: env where
  "world_busy_v2 = world_v2\<lparr>status_reply := (\<lambda>k. Inr (task_v2 ''InProgress''))\<rparr>"

text \<open>A service whose status replies, or whose submission reply, carry no task identifier.\<close>

definition anonymous_v1 :: jsval where
  "anonymous_v1 = JObj [(''Status'', JStr ''Completed''),
                        (''resultUrl'', JStr ''https://ocr.example/result.docx'')]"

definition anonymous_v2 :: jsval where
  "anonymous_v2 = JObj [(''status'', JStr ''Completed''),
                        (''resultUrls'', JArr [JStr ''https://ocr.example/result.docx''])]"

definition world_anon_v1 :: env where
  "world_anon_v1 = world_v1\<lparr>status_reply := (\<lambda>k. Inr (reply_v1 anonymous_v1))\<rparr>"

definition world_anon_v2 :: env where
  "world_anon_v2 = world_v2\<lparr>status_reply := (\<lambda>k. Inr anonymous_v2)\<rparr>"

definition world_noid_v1 :: env where
  "world_noid_v1 = world_v1\<lparr>submit_reply := Inr (reply_v1 anonymous_v1)\<rparr>"

definition world_noid_v2 :: env where
  "world_noid_v2 = world_v2\<lparr>submit_reply := Inr anonymous_v2\<rparr>"

text \<open>A service that reports the failure of the job: at the second status query, or at once.\<close>

definition world_fail_v1 :: env where
  "world_fail_v1 =
     world_v1\<lparr>status_reply := (\<lambda>k. if k = 0 then Inr (reply_v1 (task_v1 ''Submitted''))
                                   else Inr (reply_v1 (task_v1 ''ProcessingFailed'')))\<rparr>"

definition world_fail_v2 :: env where
  "world_fail_v2 =
     world_v2\<lparr>status_reply := (\<lambda>k. if k = 0 then Inr (task_v2 ''Submitted'')
                                   else Inr (task_v2 ''ProcessingFailed''))\<rparr>"

definition world_reject_v1 :: env where
  "world_reject_v1 = world_v1\<lparr>submit_reply := Inr (reply_v1 (task_v1 ''ProcessingFailed''))\<rparr>"

definition world_reject_v2 :: env where
  "world_reject_v2 = world_v2\<lparr>submit_reply := Inr (task_v2 ''ProcessingFailed'')\<rparr>"

text \<open>The equations that evaluate an invocation in the example worlds.\<close>

lemmas call_v1_eval =
  call_v1_def normalize_payload_def fields_of_def configured_def resolve_file_id_def
  resolve_latest_v1_def name_hint_def resolvePdfBytes_v1_def output_filename_def endsWith_def
  startProcess_v1_def downloadResult_def poll_section_v1_def poll_v1.simps
  js_or_def js_gt_def to_number_def getStatus_def sleep_def emit_def parseTask_v1_def
  opt_prop_def next_delay_def initial_def
  world_v1_def task_v1_def done_v1_def reply_v1_def json_request_def

lemmas call_v2_eval =
  call_v2_def normalize_payload_def fields_of_def configured_def
  resolve_latest_v2_def resolvePdfBytes_v2_def output_filename_def endsWith_def
  startProcess_v2_def poll_section_v2_def poll_v2.simps completed_v2_def parseTask_v2_def
  js_or_def js_coalesce_def getStatus_def sleep_def emit_def getFreshSignedURL_def
  next_delay_def initial_def
  world_v2_def world_v1_def task_v2_def done_v2_def json_request_def



section \<open>Missing credentials\<close>

text \<open>
  C6. When either service credential is absent from the configuration, the invocation ends
  with the configuration error in the state it started in: nothing was logged, so no network
  call, no registry lookup and no source resolution took place, and nothing was tried twice.
  It holds in both revisions.
\<close>

theorem missing_credentials_fail_first:
  assumes "\<not> configured (APP_ID w) \<or> \<not> configured (APP_PWD w)"
  shows "call_v1 w userId input s = Some (s, Inl MissingCredentials) \<and>
         call_v2 w userId input s = Some (s, Inl MissingCredentials)"
  using assms by (simp add: call_v1_def call_v2_def)

theorem missing_credentials_witness:
  "\<not> configured (APP_PWD (world_v1\<lparr>APP_PWD := None\<rparr>)) \<and>
   call_v1 (world_v1\<lparr>APP_PWD := None\<rparr>) (JStr ''u1'') (JObj [(''base64'', JStr ''JVBERi0='')]) (initial 0)
     = Some (initial 0, Inl MissingCredentials) \<and>
   call_v2 (world_v1\<lparr>APP_PWD := None\<rparr>) (JStr ''u1'') (JObj [(''base64'', JStr ''JVBERi0='')]) (initial 0)
     = Some (initial 0, Inl MissingCredentials)"
  using missing_credentials_fail_first [of "world_v1\<lparr>APP_PWD := None\<rparr>" "JStr ''u1''"
      "JObj [(''base64'', JStr ''JVBERi0='')]" "initial 0"]
  by (simp add: configured_def)

section \<open>Normalisation of the input\<close>

lemma normalize_payload_idem:
  "normalize_payload w (normalize_payload w input) = normalize_payload w input"
  by (cases input) (auto simp: normalize_payload_def split: option.splits jsval.splits)

text \<open>
  C8, as the claim states it, fails: a string that is not JSON is not mapped to the empty
  object. \<^verbatim>\<open>JSON.parse('report.pdf')\<close> throws, and the string is wrapped as the file name.
\<close>

theorem unparseable_string_counterexample:
  "JSON_parse world_v1 ''report.pdf'' = None \<and>
   normalize_payload world_v1 (JStr ''report.pdf'') = JObj [(''filename'', JStr ''report.pdf'')] \<and>
   normalize_payload world_v1 (JStr ''report.pdf'') \<noteq> JObj []"
  by (simp add: normalize_payload_def world_v1_def json_request_def)

text \<open>
  C8, amended. Normalisation maps a value of type object other than \<^verbatim>\<open>null\<close> (an
  object, or an array) to itself; a string that parses as JSON to the parsed value when that
  is such an object, and to the empty object when it is not; a string that does not parse to
  the object whose only property is \<^verbatim>\<open>filename\<close>, the string itself; and every other
  input (\<^verbatim>\<open>undefined\<close>, \<^verbatim>\<open>null\<close>, a number, a boolean) to the empty object.
  Everything after it reads the normalised request only: invoking the tool on the normalised
  request gives the same run.
\<close>

theorem normalize_payload_cases:
  "normalize_payload w input =
     (case input of
        JStr s \<Rightarrow>
          (case JSON_parse w s of
             None \<Rightarrow> JObj [(''filename'', JStr s)]
           | Some v \<Rightarrow> (case v of JObj kvs \<Rightarrow> v | JArr xs \<Rightarrow> v | _ \<Rightarrow> JObj []))
      | JObj kvs \<Rightarrow> input
      | JArr xs \<Rightarrow> input
      | _ \<Rightarrow> JObj []) \<and>
   call_v1 w userId input s = call_v1 w userId (normalize_payload w input) s \<and>
   call_v2 w userId input s = call_v2 w userId (normalize_payload w input) s"
  by (simp add: normalize_payload_idem call_v1_def call_v2_def)
     (simp add: normalize_payload_def split: jsval.splits option.splits)

theorem normalize_payload_cases_witness:
  "normalize_payload world_v1 (JStr ''report.pdf'') = JObj [(''filename'', JStr ''report.pdf'')] \<and>
   normalize_payload world_v1 (JStr json_request) = JObj [(''language'', JStr ''eng'')] \<and>
   normalize_payload world_v1 (JStr ''{}'') = JObj [] \<and>
   normalize_payload world_v1 (JStr ''42'') = JObj [] \<and>
   normalize_payload world_v1 (JNum 7) = JObj [] \<and>
   normalize_payload world_v1 (JArr [JNum 1]) = JArr [JNum 1] \<and>
   normalize_payload world_v1 (JObj [(''language'', JStr ''eng'')]) = JObj [(''language'', JStr ''eng'')]"
  using normalize_payload_cases [of world_v1 "JStr ''report.pdf''"]
        normalize_payload_cases [of world_v1 "JStr json_request"]
        normalize_payload_cases [of world_v1 "JStr ''{}''"]
        normalize_payload_cases [of world_v1 "JStr ''42''"]
        normalize_payload_cases [of world_v1 "JNum 7"]
        normalize_payload_cases [of world_v1 "JArr [JNum 1]"]
        normalize_payload_cases [of world_v1 "JObj [(''language'', JStr ''eng'')]"]
  by (simp add: world_v1_def json_request_def)

section \<open>No content source\<close>

text \<open>
  C1. With the credentials configured and no caller identity, an invocation whose request has
  no content source after normalisation and after the lookups open to it fails with the input
  error, and no job is submitted. In the older revision the lookup by \<^verbatim>\<open>file_id\<close> does
  not need the identity, so the sources are those of the request after it: the log has grown
  by that lookup at most. In the later revision nothing at all is done.
\<close>

theorem no_source_no_identity_input_error:
  assumes "configured (APP_ID w)" and "configured (APP_PWD w)" and "\<not> truthy userId"
  shows "(resolve_file_id w (fields_of (normalize_payload w input)) s = (s1, p1) \<and>
          \<not> truthy (base64 p1) \<and> \<not> truthy (fileUrl p1) \<and> \<not> truthy (filePath p1)
          \<longrightarrow> call_v1 w userId input s = Some (s1, Inl NoInput) \<and>
              (log s1 = log s \<or>
               log s1 = log s @ [FindFileById (file_id (fields_of (normalize_payload w input)))])) \<and>
         (\<not> truthy (base64 (fields_of (normalize_payload w input))) \<and>
          \<not> truthy (fileUrl (fields_of (normalize_payload w input)))
          \<longrightarrow> call_v2 w userId input s = Some (s, Inl NoInput))"
  using assms
  by (auto simp: call_v1_def call_v2_def resolve_latest_v1_def resolve_latest_v2_def
        resolve_file_id_def emit_def Let_def split: sum.splits option.splits if_splits)

theorem no_source_no_identity_witness:
  "configured (APP_ID world_v1) \<and> configured (APP_PWD world_v1) \<and> \<not> truthy JUndefined \<and>
   call_v1 world_v1 JUndefined (JObj [(''language'', JStr ''eng'')]) (initial 0)
     = Some (initial 0, Inl NoInput) \<and>
   call_v2 world_v1 JUndefined (JObj [(''language'', JStr ''eng'')]) (initial 0)
     = Some (initial 0, Inl NoInput)"
  using no_source_no_identity_input_error [of world_v1 JUndefined
      "JObj [(''language'', JStr ''eng'')]" "initial 0" "initial 0"
      "fields_of (JObj [(''language'', JStr ''eng'')])"]
  by (simp add: world_v1_def configured_def normalize_payload_def fields_of_def
        resolve_file_id_def)

section \<open>A failed job\<close>

text \<open>
  C4. The loop is entered with the task of the submission reply and re-entered with the task
  of every status reply. Whenever the task it is entered with has the status
  \<^verbatim>\<open>ProcessingFailed\<close>, it returns the processing-failure error in the very state it
  was entered in: no sleep and no status query follows. It holds in both revisions. In the
  example invocations the service reports the failure at the second status query (the log
  ends with that query) and in the submission reply (the log ends with the submission); the
  invocation fails with the processing-failure error.
\<close>

theorem failed_status_stops:
  "(get_prop task ''Status'' = JStr ''ProcessingFailed''
      \<longrightarrow> poll_v1 w start tmo delay task s = Some (s, Inl ProcessingFailed)) \<and>
   (get_prop task ''status'' = JStr ''ProcessingFailed''
      \<longrightarrow> poll_v2 w start tmo2 delay task s = Some (s, Inl ProcessingFailed)) \<and>
   call_v1 world_fail_v1 JUndefined (JObj [(''base64'', JStr ''JVBERi0='')]) (initial 0) =
     Some (\<lparr>log = [Submit ''%PDF'' (JStr ''eng''), Sleep 1500, StatusQuery (JStr ''t1''),
                   Sleep 2250, StatusQuery (JStr ''t1'')],
            polls = 2, clock = 4350\<rparr>, Inl ProcessingFailed) \<and>
   call_v2 world_fail_v2 JUndefined (JObj [(''base64'', JStr ''JVBERi0='')]) (initial 0) =
     Some (\<lparr>log = [Submit ''%PDF'' (JStr ''English,Vietnamese''), Sleep 1500,
                   StatusQuery (JStr ''t1''), Sleep 2250, StatusQuery (JStr ''t1'')],
            polls = 2, clock = 4350\<rparr>, Inl ProcessingFailed) \<and>
   call_v1 world_reject_v1 JUndefined (JObj [(''base64'', JStr ''JVBERi0='')]) (initial 0) =
     Some (\<lparr>log = [Submit ''%PDF'' (JStr ''eng'')], polls = 0, clock = 200\<rparr>,
           Inl ProcessingFailed) \<and>
   call_v2 world_reject_v2 JUndefined (JObj [(''base64'', JStr ''JVBERi0='')]) (initial 0) =
     Some (\<lparr>log = [Submit ''%PDF'' (JStr ''English,Vietnamese'')], polls = 0, clock = 200\<rparr>,
           Inl ProcessingFailed)"
proof (intro conjI impI)
  assume "get_prop task ''Status'' = JStr ''ProcessingFailed''"
  then show "poll_v1 w start tmo delay task s = Some (s, Inl ProcessingFailed)"
    by (subst poll_v1.simps) simp
next
  assume f: "get_prop task ''status'' = JStr ''ProcessingFailed''"
  then have "\<not> nullish task" by (cases task) auto
  with f show "poll_v2 w start tmo2 delay task s = Some (s, Inl ProcessingFailed)"
    by (subst poll_v2.simps) (simp add: completed_v2_def)
qed (simp_all add: call_v1_eval call_v2_eval world_fail_v1_def world_fail_v2_def
       world_reject_v1_def world_reject_v2_def)

theorem failed_status_witness:
  "get_prop (task_v1 ''ProcessingFailed'') ''Status'' = JStr ''ProcessingFailed'' \<and>
   poll_v1 world_v1 0 (JNum 360000) 1500 (task_v1 ''ProcessingFailed'') (initial 0)
     = Some (initial 0, Inl ProcessingFailed) \<and>
   get_prop (task_v2 ''ProcessingFailed'') ''status'' = JStr ''ProcessingFailed'' \<and>
   poll_v2 world_v2 0 3600000 1500 (task_v2 ''ProcessingFailed'') (initial 0)
     = Some (initial 0, Inl ProcessingFailed)"
  using failed_status_stops [where task = "task_v1 ''ProcessingFailed''" and w = world_v1
          and start = 0 and tmo = "JNum 360000" and delay = 1500 and s = "initial 0"]
        failed_status_stops [where task = "task_v2 ''ProcessingFailed''" and w = world_v2
          and start = 0 and ?tmo2.0 = 3600000 and delay = 1500 and s = "initial 0"]
  by (simp add: task_v1_def task_v2_def)

section \<open>The poll loop\<close>

subsection \<open>What one round does\<close>

lemma delays_append: "delays (xs @ ys) = delays xs @ delays ys"
  by (induction xs rule: delays.induct) auto

lemma queries_append: "queries (xs @ ys) = queries xs @ queries ys"
  by (induction xs rule: queries.induct) auto

lemma getStatus_effect:
  "getStatus w i (sleep w d s) = (s1, r) \<Longrightarrow>
     polls s1 = Suc (polls s) \<and> log s1 = log s @ [Sleep d, StatusQuery i] \<and>
     r = status_reply w (polls s) \<and>
     clock s1 = clock s + int (takes w (length (log s)) (Sleep d))
                + int (takes w (Suc (length (log s))) (StatusQuery i))"
  by (auto simp: getStatus_def sleep_def emit_def)

lemma run_ok_0: "run_ok s d s 0"
  by (simp add: run_ok_def)

lemma run_ok_1:
  "getStatus w i (sleep w d s) = (s1, r) \<Longrightarrow> run_ok s d s1 (Suc 0)"
  by (drule getStatus_effect) (simp add: run_ok_def delays_append queries_append)

lemma run_ok_Suc:
  "getStatus w i (sleep w d s) = (s1, r) \<Longrightarrow> run_ok s1 (next_delay d) s' n \<Longrightarrow> run_ok s d s' (Suc n)"
  by (drule getStatus_effect) (simp add: run_ok_def delays_append queries_append)


subsection \<open>Every run that returns\<close>

text \<open>
  Both loops by the induction rule of their least fixed point: a run that returns has made
  some number of rounds, and when it returns a task, that task passed the exit test and is the
  one seen last.
\<close>

lemma poll_v1_run:
  assumes "poll_v1 w start tmo d task s = Some y"
  shows "\<exists>n. run_ok s d (fst y) n \<and>
           (\<forall>t. snd y = Inr t \<longrightarrow> completed_v1 t \<and> last_seen_v1 w task s n t)"
  using assms
proof (induct rule: poll_v1.raw_induct [rotated 1, consumes 1, case_names step])
  case (step poll w start tmo d task s y)
  show ?case
  proof (cases "completed_v1 task \<or> get_prop task ''Status'' = JStr ''ProcessingFailed''
        \<or> js_gt w (of_int (clock s - start)) tmo")
    case True
    with step(2) have "fst y = s" "\<forall>t. snd y = Inr t \<longrightarrow> completed_v1 t \<and> t = task"
      by (auto simp: completed_v1_def split: if_splits)
    then show ?thesis
      by (intro exI[of _ 0]) (simp add: run_ok_0 last_seen_v1_def)
  next
    case False
    then have body: "(case getStatus w (get_prop task ''Id'') (sleep w d s) of
           (s1, Inl e) \<Rightarrow> Some (s1, Inl e)
         | (s1, Inr statusXml) \<Rightarrow>
             (case parseTask_v1 statusXml of
                Inl e \<Rightarrow> Some (s1, Inl e)
              | Inr task' \<Rightarrow> poll w start tmo (next_delay d) task' s1)) = Some y"
      using step(2) by (auto simp: completed_v1_def split: if_splits)
    obtain s1 r where g: "getStatus w (get_prop task ''Id'') (sleep w d s) = (s1, r)"
      by (cases "getStatus w (get_prop task ''Id'') (sleep w d s)") auto
    note eff = getStatus_effect[OF g]
    show ?thesis
    proof (cases r)
      case (Inl e)
      with body have "y = (s1, Inl e)" by (simp add: g)
      then show ?thesis
        by (intro exI[of _ "Suc 0"]) (simp add: run_ok_1[OF g])
    next
      case (Inr raw)
      show ?thesis
      proof (cases "parseTask_v1 raw")
        case (Inl e)
        with body \<open>r = Inr raw\<close> have "y = (s1, Inl e)" by (simp add: g)
        then show ?thesis
          by (intro exI[of _ "Suc 0"]) (simp add: run_ok_1[OF g])
      next
        case (Inr task')
        with body \<open>r = Inr raw\<close> have "poll w start tmo (next_delay d) task' s1 = Some y"
          by (simp add: g)
        from step(1)[OF this] obtain n where
          n: "run_ok s1 (next_delay d) (fst y) n"
             "\<forall>t. snd y = Inr t \<longrightarrow> completed_v1 t \<and> last_seen_v1 w task' s1 n t" by blast
        have sr: "status_reply w (polls s) = Inr raw" "polls s1 = Suc (polls s)"
          using eff \<open>r = Inr raw\<close> by simp_all
        have "last_seen_v1 w task s (Suc n) t" if "last_seen_v1 w task' s1 n t" for t
          using that Inr by (auto simp: last_seen_v1_def sr split: if_splits)
        with n show ?thesis
          by (intro exI[of _ "Suc n"]) (auto simp: run_ok_Suc[OF g])
      qed
    qed
  qed
qed

lemma completed_v2_True: "completed_v2 task = Inr True \<longleftrightarrow> \<not> nullish task \<and> finished_v2 task"
  by (auto simp: completed_v2_def finished_v2_def)

lemma poll_v2_run:
  assumes "poll_v2 w start tmo d task s = Some y"
  shows "\<exists>n. run_ok s d (fst y) n \<and>
           (\<forall>t. snd y = Inr t \<longrightarrow> finished_v2 t \<and> last_seen_v2 w task s n t)"
  using assms
proof (induct rule: poll_v2.raw_induct [rotated 1, consumes 1, case_names step])
  case (step poll w start tmo d task s y)
  show ?case
  proof (cases "completed_v2 task = Inr False \<and> get_prop task ''status'' \<noteq> JStr ''ProcessingFailed''
        \<and> \<not> clock s - start > tmo")
    case False
    with step(2) have "fst y = s" "\<forall>t. snd y = Inr t \<longrightarrow> finished_v2 t \<and> t = task"
      by (auto simp: completed_v2_True split: if_splits sum.splits)
    then show ?thesis
      by (intro exI[of _ 0]) (simp add: run_ok_0 last_seen_v2_def)
  next
    case True
    then have body: "(case getStatus w (get_prop task ''taskId'') (sleep w d s) of
           (s1, Inl e) \<Rightarrow> Some (s1, Inl e)
         | (s1, Inr task') \<Rightarrow> poll w start tmo (next_delay d) task' s1) = Some y"
      using step(2) by simp
    obtain s1 r where g: "getStatus w (get_prop task ''taskId'') (sleep w d s) = (s1, r)"
      by (cases "getStatus w (get_prop task ''taskId'') (sleep w d s)") auto
    note eff = getStatus_effect[OF g]
    show ?thesis
    proof (cases r)
      case (Inl e)
      with body have "y = (s1, Inl e)" by (simp add: g)
      then show ?thesis
        by (intro exI[of _ "Suc 0"]) (simp add: run_ok_1[OF g])
    next
      case (Inr task')
      with body have "poll w start tmo (next_delay d) task' s1 = Some y"
        by (simp add: g)
      from step(1)[OF this] obtain n where
        n: "run_ok s1 (next_delay d) (fst y) n"
           "\<forall>t. snd y = Inr t \<longrightarrow> finished_v2 t \<and> last_seen_v2 w task' s1 n t" by blast
      have sr: "status_reply w (polls s) = Inr task'" "polls s1 = Suc (polls s)"
        using eff Inr by simp_all
      have "last_seen_v2 w task s (Suc n) t" if "last_seen_v2 w task' s1 n t" for t
        using that by (auto simp: last_seen_v2_def sr split: if_splits)
      with n show ?thesis
        by (intro exI[of _ "Suc n"]) (auto simp: run_ok_Suc[OF g])
    qed
  qed
qed


subsection \<open>The backoff\<close>

lemma next_delay_bounds: "0 \<le> d \<Longrightarrow> d \<le> 7000 \<Longrightarrow> d \<le> next_delay d \<and> next_delay d \<le> 7000"
  by (simp add: next_delay_def min_def)

lemma backoff_bounds:
  "0 \<le> d \<Longrightarrow> d \<le> 7000 \<Longrightarrow> x \<in> set (backoff n d) \<Longrightarrow> d \<le> x \<and> x \<le> 7000"
proof (induction n arbitrary: d)
  case 0
  then show ?case by simp
next
  case (Suc n)
  from next_delay_bounds[OF Suc.prems(1,2)] Suc.prems Suc.IH[of "next_delay d"]
  show ?case by fastforce
qed

lemma backoff_sorted: "0 \<le> d \<Longrightarrow> d \<le> 7000 \<Longrightarrow> sorted (backoff n d)"
proof (induction n arbitrary: d)
  case 0
  then show ?case by simp
next
  case (Suc n)
  from next_delay_bounds[OF Suc.prems] have b: "0 \<le> next_delay d" "next_delay d \<le> 7000" "d \<le> next_delay d"
    using Suc.prems by auto
  have "\<forall>x\<in>set (backoff n (next_delay d)). d \<le> x"
    using backoff_bounds[OF b(1,2)] b(3) by fastforce
  with Suc.IH[OF b(1,2)] show ?case by simp
qed

lemma backoff_hd: "0 < n \<Longrightarrow> hd (backoff n d) = d"
  by (cases n) auto

lemma backoff_Nil: "backoff n d = [] \<longleftrightarrow> n = 0"
  by (cases n) auto

lemma backoff_length: "length (backoff n d) = n"
  by (induction n arbitrary: d) auto

lemma backoff_successively:
  "successively (\<lambda>a b. b = min (a * (3 / 2)) 7000) (backoff n d)"
proof (induction n arbitrary: d)
  case 0
  then show ?case by simp
next
  case (Suc n)
  then show ?case
    by (cases n) (auto simp: successively_Cons next_delay_def)
qed

lemma backoff_facts:
  "sorted (backoff n 1500) \<and> (\<forall>d\<in>set (backoff n 1500). 1500 \<le> d \<and> d \<le> 7000) \<and>
   successively (\<lambda>a b. b = min (a * (3 / 2)) 7000) (backoff n 1500) \<and>
   length (backoff n 1500) = n \<and> (backoff n 1500 \<noteq> [] \<longrightarrow> hd (backoff n 1500) = 1500)"
  using backoff_sorted[of 1500 n] backoff_bounds[of 1500 _ n] backoff_successively[of n 1500]
  by (auto simp: backoff_length backoff_Nil backoff_hd)


text \<open>
  C3. In every run of the poll loop that returns, in both revisions, the delays slept are the
  first delays of the backoff: the first is 1500 ms, each next one is the minimum of one and
  a half times its predecessor and the ceiling of 7000 ms, so the sequence is non-decreasing
  and stays between 1500 and 7000; there is one sleep before each status query, and as many
  queries as status replies consumed. For the mocked service that answers the status queries
  with Submitted, Submitted and Completed with a result, the loop makes exactly three queries,
  after sleeps of 1500, 2250 and 3375 ms, and returns the completed task.
\<close>

theorem backoff_delays:
  "(poll_section_v1 w p task s = Some (s', r) \<longrightarrow>
      (\<exists>ds. delays (log s') = delays (log s) @ ds \<and>
            length (queries (log s')) = length (queries (log s)) + length ds \<and>
            polls s' = polls s + length ds \<and>
            (ds \<noteq> [] \<longrightarrow> hd ds = 1500) \<and>
            successively (\<lambda>a b. b = min (a * (3 / 2)) 7000) ds \<and>
            sorted ds \<and> (\<forall>d\<in>set ds. 1500 \<le> d \<and> d \<le> 7000))) \<and>
   (poll_section_v2 w task s = Some (s', r) \<longrightarrow>
      (\<exists>ds. delays (log s') = delays (log s) @ ds \<and>
            length (queries (log s')) = length (queries (log s)) + length ds \<and>
            polls s' = polls s + length ds \<and>
            (ds \<noteq> [] \<longrightarrow> hd ds = 1500) \<and>
            successively (\<lambda>a b. b = min (a * (3 / 2)) 7000) ds \<and>
            sorted ds \<and> (\<forall>d\<in>set ds. 1500 \<le> d \<and> d \<le> 7000))) \<and>
   poll_section_v1 world_v1 (fields_of (JObj [])) (task_v1 ''Submitted'') (initial 0) =
     Some (\<lparr>log = [Sleep 1500, StatusQuery (JStr ''t1''), Sleep 2250, StatusQuery (JStr ''t1''),
                   Sleep 3375, StatusQuery (JStr ''t1'')],
            polls = 3, clock = 7725\<rparr>, Inr done_v1) \<and>
   poll_section_v2 world_v2 (task_v2 ''Submitted'') (initial 0) =
     Some (\<lparr>log = [Sleep 1500, StatusQuery (JStr ''t1''), Sleep 2250, StatusQuery (JStr ''t1''),
                   Sleep 3375, StatusQuery (JStr ''t1'')],
            polls = 3, clock = 7725\<rparr>, Inr done_v2)"
proof (intro conjI impI)
  assume "poll_section_v1 w p task s = Some (s', r)"
  from poll_v1_run[OF this[unfolded poll_section_v1_def]] obtain n where "run_ok s 1500 s' n"
    by auto
  then show "\<exists>ds. delays (log s') = delays (log s) @ ds \<and>
            length (queries (log s')) = length (queries (log s)) + length ds \<and>
            polls s' = polls s + length ds \<and>
            (ds \<noteq> [] \<longrightarrow> hd ds = 1500) \<and>
            successively (\<lambda>a b. b = min (a * (3 / 2)) 7000) ds \<and>
            sorted ds \<and> (\<forall>d\<in>set ds. 1500 \<le> d \<and> d \<le> 7000)"
    using backoff_facts[of n] by (intro exI[of _ "backoff n 1500"]) (simp add: run_ok_def)
next
  assume "poll_section_v2 w task s = Some (s', r)"
  from poll_v2_run[OF this[unfolded poll_section_v2_def]] obtain n where "run_ok s 1500 s' n"
    by auto
  then show "\<exists>ds. delays (log s') = delays (log s) @ ds \<and>
            length (queries (log s')) = length (queries (log s)) + length ds \<and>
            polls s' = polls s + length ds \<and>
            (ds \<noteq> [] \<longrightarrow> hd ds = 1500) \<and>
            successively (\<lambda>a b. b = min (a * (3 / 2)) 7000) ds \<and>
            sorted ds \<and> (\<forall>d\<in>set ds. 1500 \<le> d \<and> d \<le> 7000)"
    using backoff_facts[of n] by (intro exI[of _ "backoff n 1500"]) (simp add: run_ok_def)
next
  show "poll_section_v1 world_v1 (fields_of (JObj [])) (task_v1 ''Submitted'') (initial 0) =
     Some (\<lparr>log = [Sleep 1500, StatusQuery (JStr ''t1''), Sleep 2250, StatusQuery (JStr ''t1''),
                   Sleep 3375, StatusQuery (JStr ''t1'')],
            polls = 3, clock = 7725\<rparr>, Inr done_v1)"
    by (simp add: poll_section_v1_def poll_v1.simps world_v1_def fields_of_def task_v1_def
          done_v1_def reply_v1_def initial_def js_or_def js_gt_def to_number_def getStatus_def
          sleep_def emit_def parseTask_v1_def opt_prop_def next_delay_def)
next
  show "poll_section_v2 world_v2 (task_v2 ''Submitted'') (initial 0) =
     Some (\<lparr>log = [Sleep 1500, StatusQuery (JStr ''t1''), Sleep 2250, StatusQuery (JStr ''t1''),
                   Sleep 3375, StatusQuery (JStr ''t1'')],
            polls = 3, clock = 7725\<rparr>, Inr done_v2)"
    by (simp add: poll_section_v2_def poll_v2.simps world_v2_def world_v1_def task_v2_def
          done_v2_def initial_def getStatus_def completed_v2_def
          sleep_def emit_def next_delay_def)
qed

theorem backoff_delays_witness:
  "poll_section_v1 world_v1 (fields_of (JObj [])) (task_v1 ''Submitted'') (initial 0) =
     Some (\<lparr>log = [Sleep 1500, StatusQuery (JStr ''t1''), Sleep 2250, StatusQuery (JStr ''t1''),
                   Sleep 3375, StatusQuery (JStr ''t1'')],
            polls = 3, clock = 7725\<rparr>, Inr done_v1) \<and>
   (\<exists>ds. [1500, 2250, 3375] = delays (log (initial 0)) @ ds \<and>
         length ds = 3 \<and> hd ds = 1500 \<and>
         successively (\<lambda>a b. b = min (a * (3 / 2)) 7000) ds \<and> sorted ds \<and>
         (\<forall>d\<in>set ds. 1500 \<le> d \<and> d \<le> 7000))"
proof -
  note t = backoff_delays [of world_v1 "fields_of (JObj [])" "task_v1 ''Submitted''" "initial 0"
      "\<lparr>log = [Sleep 1500, StatusQuery (JStr ''t1''), Sleep 2250, StatusQuery (JStr ''t1''),
                   Sleep 3375, StatusQuery (JStr ''t1'')],
            polls = 3, clock = 7725\<rparr>" "Inr done_v1"]
  from t have run:
    "poll_section_v1 world_v1 (fields_of (JObj [])) (task_v1 ''Submitted'') (initial 0) =
       Some (\<lparr>log = [Sleep 1500, StatusQuery (JStr ''t1''), Sleep 2250, StatusQuery (JStr ''t1''),
                   Sleep 3375, StatusQuery (JStr ''t1'')],
            polls = 3, clock = 7725\<rparr>, Inr done_v1)"
    by blast
  from t [THEN conjunct1, rule_format, OF run] obtain ds where
    ds: "delays [Sleep 1500, StatusQuery (JStr ''t1''), Sleep 2250, StatusQuery (JStr ''t1''),
                 Sleep 3375, StatusQuery (JStr ''t1'')] = delays (log (initial 0)) @ ds"
        "3 = polls (initial 0) + length ds"
        "ds \<noteq> [] \<longrightarrow> hd ds = 1500"
        "successively (\<lambda>a b. b = min (a * (3 / 2)) 7000) ds" "sorted ds"
        "\<forall>d\<in>set ds. 1500 \<le> d \<and> d \<le> 7000"
    by auto
  from ds(2) have "length ds = 3" by (simp add: initial_def)
  with ds have "[1500, 2250, 3375] = delays (log (initial 0)) @ ds \<and>
         length ds = 3 \<and> hd ds = 1500 \<and>
         successively (\<lambda>a b. b = min (a * (3 / 2)) 7000) ds \<and> sorted ds \<and>
         (\<forall>d\<in>set ds. 1500 \<le> d \<and> d \<le> 7000)"
    by auto
  with run show ?thesis by blast
qed


section \<open>Whole invocations\<close>

subsection \<open>What a successful invocation went through\<close>

lemma polls_emit: "polls (emit w ev s) = polls s"
  by (simp add: emit_def)

lemma call_v1_success:
  assumes "call_v1 w userId input s0 = Some (s', Inr res)"
  shows "\<exists>s1 p1 s2 p s3 pdf s4 raw task0 s5 task.
     resolve_file_id w (fields_of (normalize_payload w input)) s0 = (s1, p1) \<and>
     resolve_latest_v1 w userId p1 s1 = (s2, Inr p) \<and>
     resolvePdfBytes_v1 w p s2 = (s3, Inr pdf) \<and>
     output_filename (filename p) = Inr (out_filename res) \<and>
     startProcess_v1 w pdf (js_or (language p) (JStr ''eng'')) s3 = (s4, Inr raw) \<and>
     parseTask_v1 raw = Inr task0 \<and>
     poll_section_v1 w p task0 s4 = Some (s5, Inr task) \<and>
     downloadResult w (get_prop task ''resultUrl'') s5 = (s', Inr (out_docx res))"
  using assms
  by (auto simp: call_v1_def split: if_splits prod.splits sum.splits option.splits)

lemma call_v2_success:
  assumes "call_v2 w userId input s0 = Some (s', Inr res)"
  shows "\<exists>s1 p s2 pdf s3 raw task0 task.
     resolve_latest_v2 w userId (fields_of (normalize_payload w input)) s0 = (s1, p) \<and>
     resolvePdfBytes_v2 w p s1 = (s2, Inr pdf) \<and>
     output_filename (filename p) = Inr (link_filename res) \<and>
     startProcess_v2 w pdf (js_or (language p) (JStr ''English,Vietnamese'')) s2 = (s3, Inr raw) \<and>
     parseTask_v2 raw = Inr task0 \<and>
     poll_section_v2 w task0 s3 = Some (s', Inr task) \<and>
     link_fileUrl res = index0 (get_prop task ''resultUrls'')"
  using assms
  by (auto simp: call_v2_def split: if_splits prod.splits sum.splits option.splits)

lemma resolve_file_id_polls: "resolve_file_id w p s = (s1, p1) \<Longrightarrow> polls s1 = polls s"
  by (auto simp: resolve_file_id_def polls_emit Let_def split: if_splits sum.splits option.splits)

lemma resolve_latest_v1_polls: "resolve_latest_v1 w u p s = (s1, r) \<Longrightarrow> polls s1 = polls s"
  by (auto simp: resolve_latest_v1_def polls_emit Let_def split: if_splits sum.splits list.splits)

lemma resolvePdfBytes_v1_polls: "resolvePdfBytes_v1 w p s = (s1, r) \<Longrightarrow> polls s1 = polls s"
  by (auto simp: resolvePdfBytes_v1_def polls_emit split: if_splits)

lemma startProcess_v1_effect:
  "startProcess_v1 w b l s = (s1, r) \<Longrightarrow> polls s1 = polls s \<and> r = submit_reply w"
  by (auto simp: startProcess_v1_def polls_emit)

lemma downloadResult_polls: "downloadResult w u s = (s1, r) \<Longrightarrow> polls s1 = polls s"
  by (auto simp: downloadResult_def polls_emit)

lemma getFreshSignedURL_polls: "getFreshSignedURL w a b c s = (s1, r) \<Longrightarrow> polls s1 = polls s"
  by (auto simp: getFreshSignedURL_def polls_emit Let_def split: if_splits sum.splits option.splits)

lemma resolve_latest_v2_polls: "resolve_latest_v2 w u p s = (s1, p1) \<Longrightarrow> polls s1 = polls s"
  by (auto simp: resolve_latest_v2_def polls_emit Let_def
      split: if_splits sum.splits list.splits prod.splits dest: getFreshSignedURL_polls)

lemma resolvePdfBytes_v2_polls: "resolvePdfBytes_v2 w p s = (s1, r) \<Longrightarrow> polls s1 = polls s"
  by (auto simp: resolvePdfBytes_v2_def polls_emit split: if_splits)

lemma startProcess_v2_effect:
  "startProcess_v2 w b l s = (s1, r) \<Longrightarrow> polls s1 = polls s \<and> r = submit_reply w"
  by (auto simp: startProcess_v2_def polls_emit)


subsection \<open>Success needs a completed job with a result\<close>

text \<open>
  C10. An invocation that returns a success result has seen, as the last reply of the service
  (the submission reply when no status query was made, the reply to the last status query
  otherwise), a task whose status is Completed and whose result locator is present: a truthy
  \<^verbatim>\<open>resultUrl\<close> in the older revision, a truthy first element of
  \<^verbatim>\<open>resultUrls\<close> in the later one, which is the locator returned. The loops
  themselves never return a task that fails this test, so a Completed status without a
  locator is never a successful exit. It holds in both revisions.
\<close>

theorem success_only_when_completed:
  "(call_v1 w userId input s0 = Some (s', Inr res) \<longrightarrow>
      (\<exists>raw task.
         (if polls s' = polls s0 then submit_reply w else status_reply w (polls s' - 1)) = Inr raw \<and>
         parseTask_v1 raw = Inr task \<and>
         get_prop task ''Status'' = JStr ''Completed'' \<and> truthy (get_prop task ''resultUrl''))) \<and>
   (call_v2 w userId input s0 = Some (s'', Inr res2) \<longrightarrow>
      (\<exists>task.
         (if polls s'' = polls s0 then (\<exists>raw. submit_reply w = Inr raw \<and> parseTask_v2 raw = Inr task)
          else status_reply w (polls s'' - 1) = Inr task) \<and>
         get_prop task ''status'' = JStr ''Completed'' \<and>
         truthy (index0 (get_prop task ''resultUrls'')) \<and>
         link_fileUrl res2 = index0 (get_prop task ''resultUrls''))) \<and>
   (poll_v1 w start tmo delay task1 s = Some (s1, Inr t1) \<longrightarrow>
      get_prop t1 ''Status'' = JStr ''Completed'' \<and> truthy (get_prop t1 ''resultUrl'')) \<and>
   (poll_v2 w start tmo2 delay task2 s = Some (s2, Inr t2) \<longrightarrow>
      get_prop t2 ''status'' = JStr ''Completed'' \<and> truthy (index0 (get_prop t2 ''resultUrls'')))"
proof (intro conjI impI)
  assume a: "call_v1 w userId input s0 = Some (s', Inr res)"
  from call_v1_success[OF a] obtain s1 p1 s2 p s3 pdf s4 raw task0 s5 task where
    d: "resolve_file_id w (fields_of (normalize_payload w input)) s0 = (s1, p1)"
       "resolve_latest_v1 w userId p1 s1 = (s2, Inr p)"
       "resolvePdfBytes_v1 w p s2 = (s3, Inr pdf)"
       "startProcess_v1 w pdf (js_or (language p) (JStr ''eng'')) s3 = (s4, Inr raw)"
       "parseTask_v1 raw = Inr task0"
       "poll_section_v1 w p task0 s4 = Some (s5, Inr task)"
       "downloadResult w (get_prop task ''resultUrl'') s5 = (s', Inr (out_docx res))"
    by blast
  have p4: "polls s4 = polls s0" "submit_reply w = Inr raw"
    using resolve_file_id_polls[OF d(1)] resolve_latest_v1_polls[OF d(2)]
      resolvePdfBytes_v1_polls[OF d(3)] startProcess_v1_effect[OF d(4)] by simp_all
  from poll_v1_run[OF d(6)[unfolded poll_section_v1_def]] obtain n where
    n: "run_ok s4 1500 s5 n" "completed_v1 task" "last_seen_v1 w task0 s4 n task" by auto
  have p5: "polls s' = polls s0 + n"
    using n(1) downloadResult_polls[OF d(7)] p4 by (simp add: run_ok_def)
  show "\<exists>raw task.
         (if polls s' = polls s0 then submit_reply w else status_reply w (polls s' - 1)) = Inr raw \<and>
         parseTask_v1 raw = Inr task \<and>
         get_prop task ''Status'' = JStr ''Completed'' \<and> truthy (get_prop task ''resultUrl'')"
  proof (cases n)
    case 0
    with n(3) have "task = task0" by (simp add: last_seen_v1_def)
    with 0 p5 p4 d(5) n(2) show ?thesis by (auto simp: completed_v1_def)
  next
    case (Suc m)
    with n(3) p4 obtain raw' where "status_reply w (polls s0 + n - 1) = Inr raw'" "parseTask_v1 raw' = Inr task"
      by (auto simp: last_seen_v1_def)
    with Suc p5 n(2) show ?thesis by (auto simp: completed_v1_def)
  qed
next
  assume a: "call_v2 w userId input s0 = Some (s'', Inr res2)"
  from call_v2_success[OF a] obtain s1 p s2 pdf s3 raw task0 task where
    d: "resolve_latest_v2 w userId (fields_of (normalize_payload w input)) s0 = (s1, p)"
       "resolvePdfBytes_v2 w p s1 = (s2, Inr pdf)"
       "startProcess_v2 w pdf (js_or (language p) (JStr ''English,Vietnamese'')) s2 = (s3, Inr raw)"
       "parseTask_v2 raw = Inr task0"
       "poll_section_v2 w task0 s3 = Some (s'', Inr task)"
       "link_fileUrl res2 = index0 (get_prop task ''resultUrls'')"
    by blast
  have p3: "polls s3 = polls s0" "submit_reply w = Inr raw"
    using resolve_latest_v2_polls[OF d(1)] resolvePdfBytes_v2_polls[OF d(2)]
      startProcess_v2_effect[OF d(3)] by simp_all
  from poll_v2_run[OF d(5)[unfolded poll_section_v2_def]] obtain n where
    n: "run_ok s3 1500 s'' n" "finished_v2 task" "last_seen_v2 w task0 s3 n task" by auto
  have p5: "polls s'' = polls s0 + n"
    using n(1) p3 by (simp add: run_ok_def)
  show "\<exists>task.
         (if polls s'' = polls s0 then (\<exists>raw. submit_reply w = Inr raw \<and> parseTask_v2 raw = Inr task)
          else status_reply w (polls s'' - 1) = Inr task) \<and>
         get_prop task ''status'' = JStr ''Completed'' \<and>
         truthy (index0 (get_prop task ''resultUrls'')) \<and>
         link_fileUrl res2 = index0 (get_prop task ''resultUrls'')"
  proof (cases n)
    case 0
    with n(3) have "task = task0" by (simp add: last_seen_v2_def)
    with 0 p5 p3 d(4,6) n(2) show ?thesis by (auto simp: finished_v2_def)
  next
    case (Suc m)
    with n(3) p3 have "status_reply w (polls s0 + n - 1) = Inr task"
      by (auto simp: last_seen_v2_def)
    with Suc p5 n(2) d(6) show ?thesis by (auto simp: finished_v2_def)
  qed
next
  assume "poll_v1 w start tmo delay task1 s = Some (s1, Inr t1)"
  from poll_v1_run[OF this] have c: "completed_v1 t1" by auto
  then show "get_prop t1 ''Status'' = JStr ''Completed''" "truthy (get_prop t1 ''resultUrl'')"
    by (simp_all add: completed_v1_def)
next
  assume "poll_v2 w start tmo2 delay task2 s = Some (s2, Inr t2)"
  from poll_v2_run[OF this] have c: "finished_v2 t2" by auto
  then show "get_prop t2 ''status'' = JStr ''Completed''" "truthy (index0 (get_prop t2 ''resultUrls''))"
    by (simp_all add: finished_v2_def)
qed



theorem success_only_when_completed_witness:
  "call_v1 world_v1 JUndefined (JObj [(''base64'', JStr ''JVBERi0='')]) (initial 0) =
     Some (\<lparr>log = [Submit ''%PDF'' (JStr ''eng''),
                   Sleep 1500, StatusQuery (JStr ''t1''), Sleep 2250, StatusQuery (JStr ''t1''),
                   Sleep 3375, StatusQuery (JStr ''t1''),
                   Download (JStr ''https://ocr.example/result.docx'')],
            polls = 3, clock = 8125\<rparr>,
           Inr \<lparr>out_filename = ''converted.docx'',
                out_mime = ''application/vnd.openxmlformats-officedocument.wordprocessingml.document'',
                out_docx = ''PK''\<rparr>) \<and>
   (\<exists>raw task. status_reply world_v1 2 = Inr raw \<and> parseTask_v1 raw = Inr task \<and>
       get_prop task ''Status'' = JStr ''Completed'' \<and> truthy (get_prop task ''resultUrl''))"
proof -
  have run: "call_v1 world_v1 JUndefined (JObj [(''base64'', JStr ''JVBERi0='')]) (initial 0) =
     Some (\<lparr>log = [Submit ''%PDF'' (JStr ''eng''),
                   Sleep 1500, StatusQuery (JStr ''t1''), Sleep 2250, StatusQuery (JStr ''t1''),
                   Sleep 3375, StatusQuery (JStr ''t1''),
                   Download (JStr ''https://ocr.example/result.docx'')],
            polls = 3, clock = 8125\<rparr>,
           Inr \<lparr>out_filename = ''converted.docx'',
                out_mime = ''application/vnd.openxmlformats-officedocument.wordprocessingml.document'',
                out_docx = ''PK''\<rparr>)"
    by (simp add: call_v1_eval)
  from success_only_when_completed [THEN conjunct1, rule_format, OF run] run
  show ?thesis by (simp add: initial_def)
qed


section \<open>The time budget\<close>

lemma sleep_at_least: "(d::rat) \<le> of_nat (nat \<lceil>d\<rceil>)"
proof (cases "0 \<le> \<lceil>d\<rceil>")
  case True
  then have "(of_nat (nat \<lceil>d\<rceil>) :: rat) = of_int \<lceil>d\<rceil>" by simp
  then show ?thesis by (simp add: le_of_int_ceiling)
next
  case False
  then have "(of_int \<lceil>d\<rceil> :: rat) \<le> 0" by simp
  with le_of_int_ceiling[of d] have "d \<le> 0" by linarith
  then show ?thesis by (metis of_nat_0_le_iff order_trans)
qed

lemma head_before_round:
  "getStatus w i (sleep w d s) = (s1, r) \<Longrightarrow> head_before w s1 = clock s"
  by (drule getStatus_effect) (simp add: head_before_def nth_append)

lemma poll_v1_first_timeout:
  assumes nt: "never_terminal_v1 w" and tp: "sleeps_last w" and tn: "to_number w tmo = Some b"
  shows "pending_v1 task \<Longrightarrow> 0 < d \<Longrightarrow>
         \<exists>s'. poll_v1 w start tmo d task s = Some (s', Inl Timeout) \<and>
              of_int (clock s' - start) > b \<and>
              (s' = s \<or> polls s < polls s' \<and> of_int (head_before w s' - start) \<le> b)"
proof (induction "nat (\<lfloor>b\<rfloor> + 1 - (clock s - start))" arbitrary: s d task rule: less_induct)
  case less
  show ?case
  proof (cases "of_int (clock s - start) > b")
    case True
    then have "poll_v1 w start tmo d task s = Some (s, Inl Timeout)"
      using less.prems(1) tn by (subst poll_v1.simps) (auto simp: pending_v1_def js_gt_def)
    with True show ?thesis by blast
  next
    case False
    then have le: "clock s - start \<le> \<lfloor>b\<rfloor>" by (simp add: le_floor_iff)
    obtain s1 r where g: "getStatus w (get_prop task ''Id'') (sleep w d s) = (s1, r)"
      by (cases "getStatus w (get_prop task ''Id'') (sleep w d s)") auto
    note eff = getStatus_effect[OF g] and hb = head_before_round[OF g]
    from nt obtain raw task' where
      r: "status_reply w (polls s) = Inr raw" "parseTask_v1 raw = Inr task'" "pending_v1 task'"
      unfolding never_terminal_v1_def by blast
    have "d \<le> of_nat (takes w (length (log s)) (Sleep d))"
      using tp unfolding sleeps_last_def by blast
    with \<open>0 < d\<close> have "0 < takes w (length (log s)) (Sleep d)"
      by (metis less_le_trans of_nat_0_less_iff)
    with eff have "clock s < clock s1" by linarith
    have nd: "0 < next_delay d"
      using \<open>0 < d\<close> by (simp add: next_delay_def)
    from \<open>clock s < clock s1\<close> le
    have "nat (\<lfloor>b\<rfloor> + 1 - (clock s1 - start)) < nat (\<lfloor>b\<rfloor> + 1 - (clock s - start))"
      by linarith
    from less.hyps[OF this r(3) nd] obtain s' where
      s': "poll_v1 w start tmo (next_delay d) task' s1 = Some (s', Inl Timeout)"
          "of_int (clock s' - start) > b"
          "s' = s1 \<or> polls s1 < polls s' \<and> of_int (head_before w s' - start) \<le> b" by blast
    have "poll_v1 w start tmo d task s = poll_v1 w start tmo (next_delay d) task' s1"
      using less.prems(1) False tn eff r
      by (subst poll_v1.simps) (auto simp: pending_v1_def js_gt_def g)
    moreover have "polls s < polls s' \<and> of_int (head_before w s' - start) \<le> b"
      using s'(3) eff hb False by auto
    ultimately show ?thesis using s' by auto
  qed
qed

lemma poll_v2_first_timeout:
  assumes nt: "never_terminal_v2 w" and tp: "sleeps_last w"
  shows "pending_v2 task \<Longrightarrow> 0 < d \<Longrightarrow>
         \<exists>s'. poll_v2 w start tmo d task s = Some (s', Inl Timeout) \<and> clock s' - start > tmo \<and>
              (s' = s \<or> polls s < polls s' \<and> head_before w s' - start \<le> tmo)"
proof (induction "nat (tmo + 1 - (clock s - start))" arbitrary: s d task rule: less_induct)
  case less
  show ?case
  proof (cases "clock s - start > tmo")
    case True
    then have "poll_v2 w start tmo d task s = Some (s, Inl Timeout)"
      using less.prems(1) by (subst poll_v2.simps) (auto simp: pending_v2_def)
    with True show ?thesis by blast
  next
    case False
    obtain s1 r where g: "getStatus w (get_prop task ''taskId'') (sleep w d s) = (s1, r)"
      by (cases "getStatus w (get_prop task ''taskId'') (sleep w d s)") auto
    note eff = getStatus_effect[OF g] and hb = head_before_round[OF g]
    from nt obtain task' where
      r: "status_reply w (polls s) = Inr task'" "pending_v2 task'"
      unfolding never_terminal_v2_def by blast
    have "d \<le> of_nat (takes w (length (log s)) (Sleep d))"
      using tp unfolding sleeps_last_def by blast
    with \<open>0 < d\<close> have "0 < takes w (length (log s)) (Sleep d)"
      by (metis less_le_trans of_nat_0_less_iff)
    with eff have "clock s < clock s1" by linarith
    have nd: "0 < next_delay d"
      using \<open>0 < d\<close> by (simp add: next_delay_def)
    from \<open>clock s < clock s1\<close> False
    have "nat (tmo + 1 - (clock s1 - start)) < nat (tmo + 1 - (clock s - start))"
      by linarith
    from less.hyps[OF this r(2) nd] obtain s' where
      s': "poll_v2 w start tmo (next_delay d) task' s1 = Some (s', Inl Timeout)"
          "clock s' - start > tmo"
          "s' = s1 \<or> polls s1 < polls s' \<and> head_before w s' - start \<le> tmo" by blast
    have "poll_v2 w start tmo d task s = poll_v2 w start tmo (next_delay d) task' s1"
      using less.prems(1) False eff r
      by (subst poll_v2.simps) (auto simp: pending_v2_def g)
    moreover have "polls s < polls s' \<and> head_before w s' - start \<le> tmo"
      using s'(3) eff hb False by auto
    ultimately show ?thesis using s' by auto
  qed
qed

lemma poll_v1_no_budget:
  assumes "poll_v1 w start tmo d task s = Some y"
  shows "never_terminal_v1 w \<and> to_number w tmo = None \<and> pending_v1 task \<longrightarrow> False"
  using assms
proof (induct rule: poll_v1.raw_induct [rotated 1, consumes 1, case_names step])
  case (step poll w start tmo d task s y)
  show ?case
  proof
    assume h: "never_terminal_v1 w \<and> to_number w tmo = None \<and> pending_v1 task"
    then have nogt: "\<not> js_gt w x tmo" for x by (simp add: js_gt_def)
    obtain s1 r where g: "getStatus w (get_prop task ''Id'') (sleep w d s) = (s1, r)"
      by (cases "getStatus w (get_prop task ''Id'') (sleep w d s)") auto
    note eff = getStatus_effect[OF g]
    from h obtain raw task' where
      r: "status_reply w (polls s) = Inr raw" "parseTask_v1 raw = Inr task'" "pending_v1 task'"
      unfolding never_terminal_v1_def by blast
    have "poll w start tmo (next_delay d) task' s1 = Some y"
      using step(2) h eff r by (auto simp: pending_v1_def nogt g)
    from step(1)[OF this] h r(3) show False by blast
  qed
qed

lemma poll_v1_runs_forever:
  "never_terminal_v1 w \<Longrightarrow> to_number w tmo = None \<Longrightarrow> pending_v1 task \<Longrightarrow>
   poll_v1 w start tmo d task s = None"
  using poll_v1_no_budget [of w start tmo d task s] by (cases "poll_v1 w start tmo d task s") auto


text \<open>
  C2, as the claim states it, fails: the later revision does not take the time budget from
  the request. A request with \<^verbatim>\<open>timeoutMs: 1000\<close> is still being polled 1700 ms
  and 4150 ms after the loop started, and the invocation succeeds 7725 ms after it: the budget
  is the constant \<^verbatim>\<open>60 * 60 * 1000\<close>.
\<close>

theorem request_timeout_ignored_counterexample:
  "timeoutMs (fields_of (normalize_payload world_v2
      (JObj [(''base64'', JStr ''JVBERi0=''), (''timeoutMs'', JNum 1000)]))) = JNum 1000 \<and>
   call_v2 world_v2 JUndefined (JObj [(''base64'', JStr ''JVBERi0=''), (''timeoutMs'', JNum 1000)])
      (initial 0) =
     Some (\<lparr>log = [Submit ''%PDF'' (JStr ''English,Vietnamese''),
                   Sleep 1500, StatusQuery (JStr ''t1''), Sleep 2250, StatusQuery (JStr ''t1''),
                   Sleep 3375, StatusQuery (JStr ''t1'')],
            polls = 3, clock = 7925\<rparr>,
           Inr \<lparr>link_filename = ''converted.docx'',
                link_fileUrl = JStr ''https://ocr.example/result.docx''\<rparr>)"
  by (simp add: call_v2_eval)


text \<open>
  C2, amended. When the service never reports a terminal status (each of its replies is well
  formed and neither Completed with a result nor ProcessingFailed) and every sleep lasts at
  least as long as asked for, the poll loop returns the timeout error at the first test of
  the loop at which the time elapsed since the loop started exceeds the budget: the elapsed
  time exceeds the budget when the loop ends, and either the loop ended at its first test or
  it made at least one round and at the test before its last round the elapsed time was still
  within the budget. The budget of the older revision is the request's \<^verbatim>\<open>timeoutMs\<close>
  when that is truthy and 360000 ms, six minutes, otherwise, read as a number; when it does
  not read as a number (the comparison with NaN is false) the loop never reports a timeout
  and, against such a service, does not return at all. The budget of the later revision is
  3600000 ms, one hour, whatever the request says.
\<close>

theorem timeout_when_never_terminal:
  "(never_terminal_v1 w \<and> sleeps_last w \<and> pending_v1 task \<and>
    to_number w (if truthy (timeoutMs p) then timeoutMs p else JNum 360000) = Some b
    \<longrightarrow> (\<exists>s'. poll_section_v1 w p task s = Some (s', Inl Timeout) \<and>
              of_int (clock s' - clock s) > b \<and>
              (s' = s \<or> polls s < polls s' \<and> of_int (head_before w s' - clock s) \<le> b))) \<and>
   (never_terminal_v1 w \<and> pending_v1 task \<and>
    to_number w (if truthy (timeoutMs p) then timeoutMs p else JNum 360000) = None
    \<longrightarrow> poll_section_v1 w p task s = None) \<and>
   (never_terminal_v2 w \<and> sleeps_last w \<and> pending_v2 task
    \<longrightarrow> (\<exists>s'. poll_section_v2 w task s = Some (s', Inl Timeout) \<and>
              clock s' - clock s > 3600000 \<and>
              (s' = s \<or> polls s < polls s' \<and> head_before w s' - clock s \<le> 3600000)))"
  using poll_v1_first_timeout[where w = w and tmo = "js_or (timeoutMs p) (JNum 360000)" and b = b
          and task = task and start = "clock s" and d = 1500 and s = s]
        poll_v1_runs_forever[where w = w and tmo = "js_or (timeoutMs p) (JNum 360000)"
          and task = task and start = "clock s" and d = 1500 and s = s]
        poll_v2_first_timeout[where w = w and task = task and start = "clock s" and tmo = 3600000
          and d = 1500 and s = s]
  by (auto simp: poll_section_v1_def poll_section_v2_def js_or_def)

theorem timeout_when_never_terminal_witness:
  "never_terminal_v1 world_busy_v1 \<and> sleeps_last world_busy_v1 \<and>
   pending_v1 (task_v1 ''Submitted'') \<and>
   (\<exists>s'. poll_section_v1 world_busy_v1
           (fields_of (JObj [(''timeoutMs'', JNum 5000)])) (task_v1 ''Submitted'') (initial 0)
         = Some (s', Inl Timeout) \<and> 5000 < rat_of_int (clock s' - clock (initial 0)) \<and>
           rat_of_int (head_before world_busy_v1 s' - clock (initial 0)) \<le> 5000) \<and>
   to_number world_busy_v1 (JStr ''soon'') = None \<and>
   poll_section_v1 world_busy_v1
       (fields_of (JObj [(''timeoutMs'', JStr ''soon'')])) (task_v1 ''Submitted'') (initial 0)
     = None \<and>
   never_terminal_v2 world_busy_v2 \<and> sleeps_last world_busy_v2 \<and>
   pending_v2 (task_v2 ''Submitted'') \<and>
   (\<exists>s'. poll_section_v2 world_busy_v2 (task_v2 ''Submitted'') (initial 0)
         = Some (s', Inl Timeout) \<and> 3600000 < clock s' - clock (initial 0) \<and>
           head_before world_busy_v2 s' - clock (initial 0) \<le> 3600000)"
proof -
  have sl: "sleeps_last world_busy_v1" "sleeps_last world_busy_v2"
    by (simp_all add: sleeps_last_def world_busy_v1_def world_busy_v2_def world_v2_def world_v1_def
          sleep_at_least)
  have n1: "never_terminal_v1 world_busy_v1" "pending_v1 (task_v1 ''Submitted'')"
    by (simp_all add: never_terminal_v1_def world_busy_v1_def world_v1_def pending_v1_def
          parseTask_v1_def opt_prop_def reply_v1_def task_v1_def)
  have n2: "never_terminal_v2 world_busy_v2" "pending_v2 (task_v2 ''Submitted'')"
    by (simp_all add: never_terminal_v2_def world_busy_v2_def world_v2_def world_v1_def
          pending_v2_def completed_v2_def task_v2_def)
  have b: "to_number world_busy_v1
      (if truthy (timeoutMs (fields_of (JObj [(''timeoutMs'', JNum 5000)])))
       then timeoutMs (fields_of (JObj [(''timeoutMs'', JNum 5000)])) else JNum 360000) = Some 5000"
    by (simp add: to_number_def fields_of_def)
  from timeout_when_never_terminal [where w = world_busy_v1 and task = "task_v1 ''Submitted''"
      and p = "fields_of (JObj [(''timeoutMs'', JNum 5000)])" and b = 5000 and s = "initial 0",
      THEN conjunct1, rule_format] n1 sl(1) b
  obtain s' where s1: "poll_section_v1 world_busy_v1
           (fields_of (JObj [(''timeoutMs'', JNum 5000)])) (task_v1 ''Submitted'') (initial 0)
         = Some (s', Inl Timeout)" "5000 < rat_of_int (clock s' - clock (initial 0))"
       "s' = initial 0 \<or> polls (initial 0) < polls s' \<and>
          rat_of_int (head_before world_busy_v1 s' - clock (initial 0)) \<le> 5000"
    by blast
  from s1(2,3) have "rat_of_int (head_before world_busy_v1 s' - clock (initial 0)) \<le> 5000"
    by auto
  with s1 have w1: "\<exists>s'. poll_section_v1 world_busy_v1
           (fields_of (JObj [(''timeoutMs'', JNum 5000)])) (task_v1 ''Submitted'') (initial 0)
         = Some (s', Inl Timeout) \<and> 5000 < rat_of_int (clock s' - clock (initial 0)) \<and>
           rat_of_int (head_before world_busy_v1 s' - clock (initial 0)) \<le> 5000"
    by blast
  from timeout_when_never_terminal [where w = world_busy_v2 and task = "task_v2 ''Submitted''"
      and s = "initial 0", THEN conjunct2, THEN conjunct2, rule_format] n2 sl(2)
  obtain s'' where s2: "poll_section_v2 world_busy_v2 (task_v2 ''Submitted'') (initial 0)
         = Some (s'', Inl Timeout)" "3600000 < clock s'' - clock (initial 0)"
       "s'' = initial 0 \<or> polls (initial 0) < polls s'' \<and>
          head_before world_busy_v2 s'' - clock (initial 0) \<le> 3600000"
    by blast
  from s2(2,3) have "head_before world_busy_v2 s'' - clock (initial 0) \<le> 3600000"
    by auto
  with s2 have w2: "\<exists>s'. poll_section_v2 world_busy_v2 (task_v2 ''Submitted'') (initial 0)
         = Some (s', Inl Timeout) \<and> 3600000 < clock s' - clock (initial 0) \<and>
           head_before world_busy_v2 s' - clock (initial 0) \<le> 3600000"
    by blast
  have nan: "to_number world_busy_v1 (JStr ''soon'') = None"
    by (simp add: to_number_def world_busy_v1_def world_v1_def)
  have bn: "to_number world_busy_v1
      (if truthy (timeoutMs (fields_of (JObj [(''timeoutMs'', JStr ''soon'')])))
       then timeoutMs (fields_of (JObj [(''timeoutMs'', JStr ''soon'')])) else JNum 360000) = None"
    by (simp add: fields_of_def nan)
  from timeout_when_never_terminal [where w = world_busy_v1 and task = "task_v1 ''Submitted''"
      and p = "fields_of (JObj [(''timeoutMs'', JStr ''soon'')])" and s = "initial 0",
      THEN conjunct2, THEN conjunct1, rule_format] n1 bn
  have w3: "poll_section_v1 world_busy_v1
       (fields_of (JObj [(''timeoutMs'', JStr ''soon'')])) (task_v1 ''Submitted'') (initial 0)
     = None"
    by blast
  from sl n1 n2 w1 w2 nan w3 show ?thesis by blast
qed

section \<open>The output file name\<close>
















section \<open>The latest upload\<close>








section \<open>Status replies without a task identifier\<close>

text \<open>
  C7 fails in the later revision. In the older revision \<^verbatim>\<open>parseTask\<close> is applied to
  every reply: a status reply it rejects ends the loop with the malformed-response error. The
  later revision assigns the status reply to \<^verbatim>\<open>task\<close> without \<^verbatim>\<open>parseTask\<close>
  (the call is commented out): the loop exits successfully on any reply that says Completed
  and carries a result, also on one that \<^verbatim>\<open>parseTask\<close> rejects. In the example
  invocations the first status reply has no task identifier: the later revision returns a
  success result, the older one the malformed-response error. A submission reply without a
  task identifier ends both with that error.
\<close>

theorem unvalidated_status_reply:
  "(pending_v1 task \<and> \<not> js_gt w (of_int (clock s - start)) tmo \<and>
    status_reply w (polls s) = Inr raw \<and> parseTask_v1 raw = Inl e
    \<longrightarrow> (\<exists>s1. poll_v1 w start tmo d task s = Some (s1, Inl Malformed))) \<and>
   (\<not> nullish reply \<and> finished_v2 reply
    \<longrightarrow> poll_v2 w start tmo2 d reply s = Some (s, Inr reply)) \<and>
   parseTask_v2 anonymous_v2 = Inl Malformed \<and>
   call_v2 world_anon_v2 JUndefined (JObj [(''base64'', JStr ''JVBERi0='')]) (initial 0) =
     Some (\<lparr>log = [Submit ''%PDF'' (JStr ''English,Vietnamese''),
                   Sleep 1500, StatusQuery (JStr ''t1'')],
            polls = 1, clock = 1900\<rparr>,
           Inr \<lparr>link_filename = ''converted.docx'',
                link_fileUrl = JStr ''https://ocr.example/result.docx''\<rparr>) \<and>
   parseTask_v1 (reply_v1 anonymous_v1) = Inl Malformed \<and>
   call_v1 world_anon_v1 JUndefined (JObj [(''base64'', JStr ''JVBERi0='')]) (initial 0) =
     Some (\<lparr>log = [Submit ''%PDF'' (JStr ''eng''), Sleep 1500, StatusQuery (JStr ''t1'')],
            polls = 1, clock = 1900\<rparr>,
           Inl Malformed) \<and>
   call_v1 world_noid_v1 JUndefined (JObj [(''base64'', JStr ''JVBERi0='')]) (initial 0) =
     Some (\<lparr>log = [Submit ''%PDF'' (JStr ''eng'')], polls = 0, clock = 200\<rparr>, Inl Malformed) \<and>
   call_v2 world_noid_v2 JUndefined (JObj [(''base64'', JStr ''JVBERi0='')]) (initial 0) =
     Some (\<lparr>log = [Submit ''%PDF'' (JStr ''English,Vietnamese'')], polls = 0, clock = 200\<rparr>,
           Inl Malformed)"
proof (intro conjI impI)
  assume h: "pending_v1 task \<and> \<not> js_gt w (of_int (clock s - start)) tmo \<and>
    status_reply w (polls s) = Inr raw \<and> parseTask_v1 raw = Inl e"
  then have "e = Malformed"
    by (auto simp: parseTask_v1_def Let_def split: if_splits)
  with h show "\<exists>s1. poll_v1 w start tmo d task s = Some (s1, Inl Malformed)"
    by (subst poll_v1.simps) (auto simp: pending_v1_def getStatus_def sleep_def emit_def)
next
  assume "\<not> nullish reply \<and> finished_v2 reply"
  then show "poll_v2 w start tmo2 d reply s = Some (s, Inr reply)"
    by (subst poll_v2.simps) (simp add: completed_v2_def finished_v2_def)
qed (simp_all add: call_v1_eval call_v2_eval world_anon_v1_def world_anon_v2_def
        world_noid_v1_def world_noid_v2_def anonymous_v1_def anonymous_v2_def)

theorem unvalidated_status_reply_witness:
  "\<not> nullish anonymous_v2 \<and> finished_v2 anonymous_v2 \<and>
   parseTask_v2 anonymous_v2 = Inl Malformed \<and>
   poll_v2 world_anon_v2 0 3600000 1500 anonymous_v2 (initial 0) =
     Some (initial 0, Inr anonymous_v2)"
proof -
  have f: "\<not> nullish anonymous_v2 \<and> finished_v2 anonymous_v2"
    by (simp add: anonymous_v2_def finished_v2_def)
  note t = unvalidated_status_reply [where reply = anonymous_v2 and w = world_anon_v2
      and start = 0 and ?tmo2.0 = 3600000 and d = 1500 and s = "initial 0"]
  from t have m: "parseTask_v2 anonymous_v2 = Inl Malformed" by blast
  from t [THEN conjunct2, THEN conjunct1, rule_format, OF f] f m show ?thesis by blast
qed


end
